theory Spec2Isabelle
  imports Complex_Main "HOL-Library.AList"
begin

section \<open>JavaScript values\<close>

text \<open>
  The repository is TypeScript; its rows are untyped objects (\<^verbatim>\<open>any\<close>). A string is a list
  of code units; the model covers code units below 256 (\<^typ>\<open>char\<close>). A number is
  \<open>NaN\<close>, an infinity or a finite double; a finite double is written as the rational it
  is, and every conversion from text rounds to the nearest double (\<open>round_double\<close> below).
\<close>

datatype jsnum = NaN | PosInf | NegInf | Fin rat

text \<open>A scalar, as a row stores it: what the uploaders (CSV text, spreadsheet cells) and
  JSON produce for a cell, and what an edit writes.\<close>

datatype scalar = SUndefined | SNull | SBool bool | SNum jsnum | SStr string

text \<open>A value as \<open>row[k]\<close> reads it: a scalar, or a member that the row inherits from
  \<open>Object.prototype\<close> (a function, or for \<^verbatim>\<open>__proto__\<close> the prototype object itself).\<close>

datatype cell = CUndefined | CNull | CBool bool | CNum jsnum | CStr string
  | CInherited string

fun read :: "scalar \<Rightarrow> cell" where
  "read SUndefined = CUndefined"
| "read SNull = CNull"
| "read (SBool b) = CBool b"
| "read (SNum n) = CNum n"
| "read (SStr s) = CStr s"

text \<open>A value read from JSON text.\<close>

datatype json = JNull | JBool bool | JNum jsnum | JStr string
  | JArr "json list" | JObj "(string \<times> json) list"

datatype js_error = TypeError string | SyntaxError string | Error string

text \<open>A row is an ordinary object: its own properties in the order of their creation, and
  whether its prototype is still \<open>Object.prototype\<close> (an assignment of \<open>null\<close> to
  \<^verbatim>\<open>__proto__\<close> removes it). \<open>plain\<close> is the object that an object literal or a parser
  makes.\<close>

record row =
  own :: "(string \<times> scalar) list"
  proto :: bool

definition plain :: "(string \<times> scalar) list \<Rightarrow> row" where
  "plain ps = \<lparr>own = ps, proto = True\<rparr>"

definition object_prototype_members :: "string list" where
  "object_prototype_members =
     [''constructor'', ''__defineGetter__'', ''__defineSetter__'', ''hasOwnProperty'',
      ''__lookupGetter__'', ''__lookupSetter__'', ''isPrototypeOf'', ''propertyIsEnumerable'',
      ''toString'', ''valueOf'', ''__proto__'', ''toLocaleString'']"

text \<open>\<open>row[k]\<close>: the own property, else the member inherited from \<open>Object.prototype\<close>,
  else \<open>undefined\<close>.\<close>

definition get_prop :: "row \<Rightarrow> string \<Rightarrow> cell" where
  "get_prop r k =
     (case map_of (own r) k of
        Some v \<Rightarrow> read v
      | None \<Rightarrow> if proto r \<and> k \<in> set object_prototype_members then CInherited k
                else CUndefined)"

text \<open>\<open>row[k] = v\<close> for a scalar \<open>v\<close>: an own property is overwritten in place and a new
  one is created last. The one exception is \<^verbatim>\<open>__proto__\<close> on a row that does not own it
  and still has its prototype: the assignment goes to the setter of \<open>Object.prototype\<close>,
  which removes the prototype for \<open>null\<close> and ignores every other scalar.\<close>

definition set_prop :: "row \<Rightarrow> string \<Rightarrow> scalar \<Rightarrow> row" where
  "set_prop r k v =
     (if k = ''__proto__'' \<and> proto r \<and> map_of (own r) k = None
      then (if v = SNull then r\<lparr>proto := False\<rparr> else r)
      else r\<lparr>own := AList.update k v (own r)\<rparr>)"

subsection \<open>Characters and strings\<close>

definition code :: "char \<Rightarrow> nat" where
  "code c = of_char c"

text \<open>White space and line terminators (\<^verbatim>\<open>\s\<close>, \<^verbatim>\<open>trim\<close>, numeric strings).\<close>

definition js_space :: "char \<Rightarrow> bool" where
  "js_space c = (code c \<in> {9, 10, 11, 12, 13, 32, 160})"

definition is_digit :: "char \<Rightarrow> bool" where
  "is_digit c = (48 \<le> code c \<and> code c \<le> 57)"

definition is_word :: "char \<Rightarrow> bool" where
  "is_word c = (is_digit c \<or> (65 \<le> code c \<and> code c \<le> 90)
      \<or> (97 \<le> code c \<and> code c \<le> 122) \<or> code c = 95)"

definition digit_val :: "char \<Rightarrow> int" where
  "digit_val c = int (code c) - 48"

definition lower_char :: "char \<Rightarrow> char" where
  "lower_char c = (if (65 \<le> code c \<and> code c \<le> 90)
        \<or> (192 \<le> code c \<and> code c \<le> 222 \<and> code c \<noteq> 215)
     then char_of (code c + 32) else c)"

definition toLowerCase :: "string \<Rightarrow> string" where
  "toLowerCase s = map lower_char s"

definition trim :: "string \<Rightarrow> string" where
  "trim s = rev (dropWhile js_space (rev (dropWhile js_space s)))"

definition startsWith :: "string \<Rightarrow> string \<Rightarrow> bool" where
  "startsWith s p = (take (length p) s = p)"

definition endsWith :: "string \<Rightarrow> string \<Rightarrow> bool" where
  "endsWith s p = (length p \<le> length s \<and> drop (length s - length p) s = p)"

text \<open>\<^verbatim>\<open>s.split(c)\<close> for a one-character separator.\<close>

fun split_on :: "char \<Rightarrow> string \<Rightarrow> string list" where
  "split_on c [] = [[]]"
| "split_on c (x # xs) =
     (if x = c then [] # split_on c xs
      else (case split_on c xs of [] \<Rightarrow> [[x]] | y # ys \<Rightarrow> (x # y) # ys))"

subsection \<open>Numbers\<close>

definition isNaN :: "jsnum \<Rightarrow> bool" where
  "isNaN n = (n = NaN)"

text \<open>\<open>a < b\<close> on numbers; every comparison with \<open>NaN\<close> is false.\<close>

fun num_lt :: "jsnum \<Rightarrow> jsnum \<Rightarrow> bool" where
  "num_lt NaN _ = False"
| "num_lt _ NaN = False"
| "num_lt (Fin a) (Fin b) = (a < b)"
| "num_lt NegInf NegInf = False"
| "num_lt NegInf _ = True"
| "num_lt _ NegInf = False"
| "num_lt PosInf _ = False"
| "num_lt _ PosInf = True"

definition num_gt :: "jsnum \<Rightarrow> jsnum \<Rightarrow> bool" where
  "num_gt a b = num_lt b a"

text \<open>Powers with an integer exponent, by squaring.\<close>

function ipow :: "rat \<Rightarrow> int \<Rightarrow> rat" where
  "ipow b e =
     (if e \<le> 0 then 1
      else if even e then ipow b (e div 2) * ipow b (e div 2)
      else b * ipow b (e - 1))"
  by pat_completeness auto
termination
  by (relation "measure (\<lambda>(b, e). nat e)") auto

definition pow2 :: "int \<Rightarrow> rat" where
  "pow2 e = (if 0 \<le> e then ipow 2 e else 1 / ipow 2 (- e))"

definition pow10 :: "int \<Rightarrow> rat" where
  "pow10 e = (if 0 \<le> e then ipow 10 e else 1 / ipow 10 (- e))"

text \<open>The number of binary and of decimal digits of a positive integer.\<close>

function blen :: "int \<Rightarrow> int" where
  "blen n = (if n \<le> 0 then 0 else 1 + blen (n div 2))"
  by pat_completeness auto
termination
  by (relation "measure nat") auto

function dlen :: "int \<Rightarrow> int" where
  "dlen n = (if n \<le> 0 then 0 else 1 + dlen (n div 10))"
  by pat_completeness auto
termination
  by (relation "measure nat") auto

text \<open>The nearest integer, a tie going to the even one.\<close>

definition half_even :: "rat \<Rightarrow> int" where
  "half_even x =
     (let f = \<lfloor>x\<rfloor>; d = x - of_int f in
      if d < 1 / 2 then f
      else if 1 / 2 < d then f + 1
      else if even f then f else f + 1)"

text \<open>For \<open>a > 0\<close>: the \<open>e\<close> with \<open>2\<^sup>e \<le> a < 2\<^sup>e\<^sup>+\<^sup>1\<close>, found from the lengths of
  numerator and denominator.\<close>

definition log2_floor :: "rat \<Rightarrow> int" where
  "log2_floor a =
     (let e0 = blen (fst (quotient_of a)) - blen (snd (quotient_of a)) in
      if pow2 e0 \<le> a then e0 else e0 - 1)"

text \<open>The double nearest to a rational (round to nearest, ties to even): 53 significant
  bits, exponents from -1022 (below that the spacing stays \<open>2\<^sup>-\<^sup>1\<^sup>0\<^sup>7\<^sup>4\<close>), and an
  infinity from \<open>2\<^sup>1\<^sup>0\<^sup>2\<^sup>4\<close> on. The two zeros are not told apart: no operation of the
  repository sees the difference.\<close>

definition round_double :: "rat \<Rightarrow> jsnum" where
  "round_double r =
     (if r = 0 then Fin 0
      else
        (let a = \<bar>r\<bar>;
             e = max (log2_floor a) (- 1022);
             q = pow2 (e - 52);
             v = of_int (half_even (a / q)) * q
         in if pow2 1024 \<le> v then (if r < 0 then NegInf else PosInf)
            else Fin (if r < 0 then - v else v)))"

definition digits_val :: "int \<Rightarrow> string \<Rightarrow> int" where
  "digits_val base s = foldl (\<lambda>a c. base * a + digit_val c) 0 s"

definition is_hex :: "char \<Rightarrow> bool" where
  "is_hex c = (is_digit c \<or> (65 \<le> code c \<and> code c \<le> 70) \<or> (97 \<le> code c \<and> code c \<le> 102))"

definition hex_val :: "char \<Rightarrow> int" where
  "hex_val c = (if is_digit c then int (code c) - 48
     else if code c \<le> 70 then int (code c) - 55 else int (code c) - 87)"

definition radix_val :: "int \<Rightarrow> string \<Rightarrow> int" where
  "radix_val base s = foldl (\<lambda>a c. base * a + hex_val c) 0 s"

text \<open>An exponent part \<^verbatim>\<open>e\<close>, sign, digits; \<open>[]\<close> is the absent exponent.\<close>

definition exponent_part :: "string \<Rightarrow> int option" where
  "exponent_part s =
     (case s of
        [] \<Rightarrow> Some 0
      | c # r \<Rightarrow>
          if c = CHR ''e'' \<or> c = CHR ''E'' then
            (let (neg, ds) = (case r of
                   [] \<Rightarrow> (False, r)
                 | d # r' \<Rightarrow> if d = CHR ''-'' then (True, r')
                             else if d = CHR ''+'' then (False, r') else (False, r))
             in if ds \<noteq> [] \<and> list_all is_digit ds
                then Some (if neg then - digits_val 10 ds else digits_val 10 ds)
                else None)
          else None)"

text \<open>The exact value of an unsigned decimal literal: \<^verbatim>\<open>1\<close>, \<^verbatim>\<open>1.\<close>, \<^verbatim>\<open>1.5\<close>, \<^verbatim>\<open>.5\<close>, each
  with an optional exponent. \<open>need_frac\<close> is JSON's rule that a dot is followed by a digit
  and that the integer part is there.\<close>

definition decimal_literal :: "bool \<Rightarrow> string \<Rightarrow> rat option" where
  "decimal_literal need_frac s =
     (let ip = takeWhile is_digit s; r1 = dropWhile is_digit s;
          dot = (r1 \<noteq> [] \<and> hd r1 = CHR ''.'');
          fp = (if dot then takeWhile is_digit (tl r1) else []);
          r2 = (if dot then dropWhile is_digit (tl r1) else r1)
      in if ip = [] \<and> fp = [] then None
         else if need_frac \<and> (ip = [] \<or> (dot \<and> fp = [])) then None
         else (case exponent_part r2 of
                 None \<Rightarrow> None
               | Some e \<Rightarrow>
                   Some (of_int (digits_val 10 (ip @ fp)) * pow10 (e - int (length fp)))))"

text \<open>The exact value of a literal with a radix prefix.\<close>

definition radix_literal :: "string \<Rightarrow> int option" where
  "radix_literal t =
     (case t of
        z # x # ds \<Rightarrow>
          if z = CHR ''0'' \<and> ds \<noteq> [] then
            (if (x = CHR ''x'' \<or> x = CHR ''X'') \<and> list_all is_hex ds
               then Some (radix_val 16 ds)
             else if (x = CHR ''o'' \<or> x = CHR ''O'') \<and> list_all (\<lambda>c. 48 \<le> code c \<and> code c \<le> 55) ds
               then Some (radix_val 8 ds)
             else if (x = CHR ''b'' \<or> x = CHR ''B'') \<and> list_all (\<lambda>c. c = CHR ''0'' \<or> c = CHR ''1'') ds
               then Some (radix_val 2 ds)
             else None)
          else None
      | _ \<Rightarrow> None)"

text \<open>\<open>Number(s)\<close> of a string: trimmed; empty is 0; a radix literal, or a signed decimal
  literal or \<^verbatim>\<open>Infinity\<close>; anything else is \<open>NaN\<close>. The value of a literal is rounded to a
  double.\<close>

definition StringToNumber :: "string \<Rightarrow> jsnum" where
  "StringToNumber s =
     (let t = trim s in
      if t = [] then Fin 0
      else (case radix_literal t of
              Some n \<Rightarrow> round_double (of_int n)
            | None \<Rightarrow>
               (let neg = (hd t = CHR ''-'');
                    u = (if hd t = CHR ''-'' \<or> hd t = CHR ''+'' then tl t else t)
                in if u = ''Infinity'' then (if neg then NegInf else PosInf)
                   else (case decimal_literal False u of
                           None \<Rightarrow> NaN
                         | Some q \<Rightarrow> round_double (if neg then - q else q)))))"

text \<open>\<open>Number(v)\<close>. An inherited member is an object whose primitive value is a text that
  is no number.\<close>

fun Number :: "cell \<Rightarrow> jsnum" where
  "Number CUndefined = NaN"
| "Number CNull = Fin 0"
| "Number (CBool b) = Fin (if b then 1 else 0)"
| "Number (CNum n) = n"
| "Number (CStr s) = StringToNumber s"
| "Number (CInherited k) = NaN"

subsection \<open>\<open>String(n)\<close> of a number\<close>

function show_int :: "int \<Rightarrow> string" where
  "show_int n = (if n < 10 then [char_of (nat (48 + n))]
                 else show_int (n div 10) @ [char_of (nat (48 + n mod 10))])"
  by pat_completeness auto
termination
  by (relation "measure nat") auto

text \<open>For \<open>x > 0\<close>: the \<open>n\<close> with \<open>10\<^sup>n\<^sup>-\<^sup>1 \<le> x < 10\<^sup>n\<close>.\<close>

definition dec_exp :: "rat \<Rightarrow> int" where
  "dec_exp x =
     (let d = dlen (fst (quotient_of x)) - dlen (snd (quotient_of x)) in
      if x < pow10 d then d else d + 1)"

text \<open>The digits of a positive double \<open>x\<close> are the shortest decimal that reads back as \<open>x\<close>.
  \<open>pick x n k\<close> looks for it among the decimals \<open>s \<times> 10\<^sup>n\<^sup>-\<^sup>k\<close> with \<open>k\<close> digits: only the
  two neighbours of \<open>x\<close> can read back as \<open>x\<close>; of two that do, the nearer is taken, the even
  one on a tie.\<close>

definition pick :: "rat \<Rightarrow> int \<Rightarrow> int \<Rightarrow> int option" where
  "pick x n k =
     (let sc = pow10 (n - k); t = x / sc; lo = \<lfloor>t\<rfloor>; hi = \<lceil>t\<rceil>;
          ok_lo = (round_double (of_int lo * sc) = Fin x);
          ok_hi = (round_double (of_int hi * sc) = Fin x)
      in if ok_lo \<and> ok_hi then
           (if t - of_int lo < of_int hi - t then Some lo
            else if of_int hi - t < t - of_int lo then Some hi
            else if even lo then Some lo else Some hi)
         else if ok_lo then Some lo
         else if ok_hi then Some hi
         else None)"

fun first_pick :: "rat \<Rightarrow> int \<Rightarrow> int list \<Rightarrow> (int \<times> int) option" where
  "first_pick x n [] = None"
| "first_pick x n (k # ks) =
     (case pick x n k of Some s \<Rightarrow> Some (s, k) | None \<Rightarrow> first_pick x n ks)"

text \<open>The digits and the decimal exponent \<open>n\<close> (the value is \<open>0.digits \<times> 10\<^sup>n\<close>). A double
  has at most 17 digits. When the upper neighbour is the power of ten itself, the digit is
  1 and the exponent one more.\<close>

definition shortest_digits :: "rat \<Rightarrow> string \<times> int" where
  "shortest_digits x =
     (let n = dec_exp x in
      case first_pick x n [1, 2, 3, 4, 5, 6, 7, 8, 9, 10, 11, 12, 13, 14, 15, 16, 17] of
        Some (s, k) \<Rightarrow>
          if of_int s = pow10 k then (show_int (s div 10), n + 1) else (show_int s, n)
      | None \<Rightarrow> (show_int \<lfloor>x / pow10 (n - 17)\<rfloor>, n))"

text \<open>The layout: plain digits up to 21 integer digits and down to six leading zeros,
  else one digit, a fraction and an exponent.\<close>

definition format_number :: "string \<Rightarrow> int \<Rightarrow> string" where
  "format_number ds n =
     (let k = int (length ds) in
      if k \<le> n \<and> n \<le> 21 then ds @ replicate (nat (n - k)) (CHR ''0'')
      else if 0 < n \<and> n \<le> 21 then take (nat n) ds @ ''.'' @ drop (nat n) ds
      else if - 6 < n \<and> n \<le> 0 then ''0.'' @ replicate (nat (- n)) (CHR ''0'') @ ds
      else (if k = 1 then ds else hd ds # ''.'' @ tl ds)
           @ ''e'' @ (if n - 1 < 0 then ''-'' else ''+'') @ show_int \<bar>n - 1\<bar>)"

text \<open>\<open>String(n)\<close>. A finite number stands for a double; a rational that is none is
  taken as the double nearest to it.\<close>

fun num_to_string :: "jsnum \<Rightarrow> string" where
  "num_to_string NaN = ''NaN''"
| "num_to_string PosInf = ''Infinity''"
| "num_to_string NegInf = ''-Infinity''"
| "num_to_string (Fin r) =
     (case round_double r of
        Fin v \<Rightarrow>
          if v = 0 then ''0''
          else (if v < 0 then ''-'' else []) @ (case shortest_digits \<bar>v\<bar> of (ds, n) \<Rightarrow> format_number ds n)
      | PosInf \<Rightarrow> ''Infinity''
      | NegInf \<Rightarrow> ''-Infinity''
      | NaN \<Rightarrow> ''NaN'')"

text \<open>\<open>String(v)\<close>. The text of an inherited function is the engine's (here V8's); in every
  engine it contains white space.\<close>

fun ToString :: "cell \<Rightarrow> string" where
  "ToString CUndefined = ''undefined''"
| "ToString CNull = ''null''"
| "ToString (CBool b) = (if b then ''true'' else ''false'')"
| "ToString (CNum n) = num_to_string n"
| "ToString (CStr s) = s"
| "ToString (CInherited k) =
     (if k = ''__proto__'' then ''[object Object]''
      else ''function '' @ (if k = ''constructor'' then ''Object'' else k) @ ''() { [native code] }'')"

text \<open>Truthiness, as \<open>!v\<close> and \<open>if (v)\<close> read it.\<close>

fun truthy :: "cell \<Rightarrow> bool" where
  "truthy CUndefined = False"
| "truthy CNull = False"
| "truthy (CBool b) = b"
| "truthy (CNum n) = (n \<noteq> NaN \<and> n \<noteq> Fin 0)"
| "truthy (CStr s) = (s \<noteq> [])"
| "truthy (CInherited k) = True"

fun truthy_json :: "json \<Rightarrow> bool" where
  "truthy_json JNull = False"
| "truthy_json (JBool b) = b"
| "truthy_json (JNum n) = (n \<noteq> NaN \<and> n \<noteq> Fin 0)"
| "truthy_json (JStr s) = (s \<noteq> [])"
| "truthy_json (JArr _) = True"
| "truthy_json (JObj _) = True"

section \<open>Regular expressions\<close>

text \<open>
  The patterns of the repository are sequences of literal characters and of greedy
  repetitions of a character class, anchored at both ends. \<open>rx_match\<close> is a backtracking
  matcher for such sequences: a repetition takes the longest run first and gives characters
  back while the rest of the pattern fails. It returns the captured groups in order.
\<close>

datatype cclass = Word | Space | NonSpace | Digit

fun in_class :: "cclass \<Rightarrow> char \<Rightarrow> bool" where
  "in_class Word c = is_word c"
| "in_class Space c = js_space c"
| "in_class NonSpace c = (\<not> js_space c)"
| "in_class Digit c = is_digit c"

datatype rx_item = Lit char | Star cclass | Plus cclass | CapPlus cclass

text \<open>The first result of \<open>f n, f (n - 1), \<dots>, f 0\<close>.\<close>

primrec first_down :: "(nat \<Rightarrow> 'a option) \<Rightarrow> nat \<Rightarrow> 'a option" where
  "first_down f 0 = f 0"
| "first_down f (Suc n) = (case f (Suc n) of Some r \<Rightarrow> Some r | None \<Rightarrow> first_down f n)"

fun rx_match :: "bool \<Rightarrow> rx_item list \<Rightarrow> string \<Rightarrow> string list \<Rightarrow> string list option" where
  "rx_match ic [] s caps = (if s = [] then Some caps else None)"
| "rx_match ic (Lit c # r) s caps =
     (case s of
        [] \<Rightarrow> None
      | x # xs \<Rightarrow>
          if x = c \<or> (ic \<and> lower_char x = lower_char c) then rx_match ic r xs caps else None)"
| "rx_match ic (Star k # r) s caps =
     first_down (\<lambda>n. rx_match ic r (drop n s) caps) (length (takeWhile (in_class k) s))"
| "rx_match ic (Plus k # r) s caps =
     first_down (\<lambda>n. if n = 0 then None else rx_match ic r (drop n s) caps)
       (length (takeWhile (in_class k) s))"
| "rx_match ic (CapPlus k # r) s caps =
     first_down (\<lambda>n. if n = 0 then None else rx_match ic r (drop n s) (caps @ [take n s]))
       (length (takeWhile (in_class k) s))"

definition lits :: "string \<Rightarrow> rx_item list" where
  "lits s = map Lit s"

section \<open>JSON\<close>

subsection \<open>\<open>JSON.parse\<close>\<close>

text \<open>
  The text is cut into tokens by a scanner that reads one character at a time, and the
  tokens are read by a machine with a stack of open arrays and objects. A run of
  characters that can belong to a number, or of lower-case letters, is one lexeme, valid or
  not: whatever the grammar would read shorter fails at the next character all the same.
  An escape \<^verbatim>\<open>\uXXXX\<close> above 255 is outside the model of strings (its code unit is
  taken modulo 256). \<open>None\<close> is the \<open>SyntaxError\<close>.
\<close>

datatype token = TLBrace | TRBrace | TLBrack | TRBrack | TColon | TComma | TValue json

datatype lexstate = LStart | LStr string | LEsc string | LUni string string
  | LNum string | LWord string

definition json_number :: "string \<Rightarrow> json option" where
  "json_number s =
     (let neg = (s \<noteq> [] \<and> hd s = CHR ''-'');
          u = (if neg then tl s else s);
          ip = takeWhile is_digit u
      in if ip = [] \<or> (1 < length ip \<and> hd ip = CHR ''0'') then None
         else (case decimal_literal True u of
                 None \<Rightarrow> None
               | Some q \<Rightarrow> Some (JNum (round_double (if neg then - q else q)))))"

definition json_word :: "string \<Rightarrow> json option" where
  "json_word s =
     (if s = ''true'' then Some (JBool True)
      else if s = ''false'' then Some (JBool False)
      else if s = ''null'' then Some JNull else None)"

definition num_char :: "char \<Rightarrow> bool" where
  "num_char c = (is_digit c \<or> c \<in> set ''-+.eE'')"

definition lower_letter :: "char \<Rightarrow> bool" where
  "lower_letter c = (97 \<le> code c \<and> code c \<le> 122)"

definition json_space :: "char \<Rightarrow> bool" where
  "json_space c = (code c \<in> {9, 10, 13, 32})"

definition escape_char :: "char \<Rightarrow> char option" where
  "escape_char c =
     (if c = CHR 0x22 then Some (CHR 0x22)
      else if c = CHR 0x5C then Some (CHR 0x5C)
      else if c = CHR ''/'' then Some (CHR ''/'')
      else if c = CHR ''b'' then Some (CHR 0x08)
      else if c = CHR ''f'' then Some (CHR 0x0C)
      else if c = CHR ''n'' then Some (CHR 0x0A)
      else if c = CHR ''r'' then Some (CHR 0x0D)
      else if c = CHR ''t'' then Some (CHR 0x09)
      else None)"

text \<open>What the scanner does with one character between two tokens.\<close>

definition start_step :: "char \<Rightarrow> (token list \<times> lexstate) option" where
  "start_step c =
     (if json_space c then Some ([], LStart)
      else if c = CHR ''{'' then Some ([TLBrace], LStart)
      else if c = CHR ''}'' then Some ([TRBrace], LStart)
      else if c = CHR ''['' then Some ([TLBrack], LStart)
      else if c = CHR '']'' then Some ([TRBrack], LStart)
      else if c = CHR '':'' then Some ([TColon], LStart)
      else if c = CHR '','' then Some ([TComma], LStart)
      else if c = CHR 0x22 then Some ([], LStr [])
      else if c = CHR ''-'' \<or> is_digit c then Some ([], LNum [c])
      else if lower_letter c then Some ([], LWord [c])
      else None)"

text \<open>A lexeme ends before \<open>c\<close>: its token, then \<open>c\<close> read between two tokens.\<close>

definition end_lexeme :: "json option \<Rightarrow> char \<Rightarrow> (token list \<times> lexstate) option" where
  "end_lexeme v c =
     (case v of
        None \<Rightarrow> None
      | Some j \<Rightarrow> (case start_step c of None \<Rightarrow> None | Some (ts, st) \<Rightarrow> Some (TValue j # ts, st)))"

fun lex_step :: "lexstate \<Rightarrow> char \<Rightarrow> (token list \<times> lexstate) option" where
  "lex_step LStart c = start_step c"
| "lex_step (LStr acc) c =
     (if c = CHR 0x22 then Some ([TValue (JStr (rev acc))], LStart)
      else if c = CHR 0x5C then Some ([], LEsc acc)
      else if code c < 32 then None
      else Some ([], LStr (c # acc)))"
| "lex_step (LEsc acc) c =
     (if c = CHR ''u'' then Some ([], LUni acc [])
      else (case escape_char c of None \<Rightarrow> None | Some e \<Rightarrow> Some ([], LStr (e # acc))))"
| "lex_step (LUni acc hs) c =
     (if \<not> is_hex c then None
      else if length hs = 3 then Some ([], LStr (char_of (radix_val 16 (rev (c # hs))) # acc))
      else Some ([], LUni acc (c # hs)))"
| "lex_step (LNum acc) c =
     (if num_char c then Some ([], LNum (c # acc)) else end_lexeme (json_number (rev acc)) c)"
| "lex_step (LWord acc) c =
     (if lower_letter c then Some ([], LWord (c # acc)) else end_lexeme (json_word (rev acc)) c)"

text \<open>The end of the text.\<close>

fun lex_end :: "lexstate \<Rightarrow> token list option" where
  "lex_end LStart = Some []"
| "lex_end (LNum acc) = map_option (\<lambda>j. [TValue j]) (json_number (rev acc))"
| "lex_end (LWord acc) = map_option (\<lambda>j. [TValue j]) (json_word (rev acc))"
| "lex_end _ = None"

fun lex :: "lexstate \<Rightarrow> string \<Rightarrow> token list option" where
  "lex st [] = lex_end st"
| "lex st (c # cs) =
     (case lex_step st c of
        None \<Rightarrow> None
      | Some (ts, st') \<Rightarrow> map_option ((@) ts) (lex st' cs))"

text \<open>An open array with its elements (last first), or an open object with its members
  and the key whose value is being read.\<close>

datatype frame = FArr "json list" | FObj "(string \<times> json) list" string

datatype pstate = PValue | PValueOrEnd | PKeyOrEnd | PKey | PColon string | PAfter
  | PDone json

text \<open>A value is complete: it is the result, or it goes into the innermost open
  container. A repeated key keeps its first place and takes the last value.\<close>

fun complete :: "frame list \<Rightarrow> json \<Rightarrow> frame list \<times> pstate" where
  "complete [] v = ([], PDone v)"
| "complete (FArr es # st) v = (FArr (v # es) # st, PAfter)"
| "complete (FObj ms k # st) v = (FObj (AList.update k v ms) k # st, PAfter)"

fun pstep :: "frame list \<times> pstate \<Rightarrow> token \<Rightarrow> (frame list \<times> pstate) option" where
  "pstep (st, PDone v) t = None"
| "pstep (st, PColon k) t =
     (case (t, st) of
        (TColon, FObj ms _ # st') \<Rightarrow> Some (FObj ms k # st', PValue)
      | _ \<Rightarrow> None)"
| "pstep (st, PAfter) t =
     (case (t, st) of
        (TComma, FArr es # st') \<Rightarrow> Some (st, PValue)
      | (TComma, FObj ms k # st') \<Rightarrow> Some (st, PKey)
      | (TRBrack, FArr es # st') \<Rightarrow> Some (complete st' (JArr (rev es)))
      | (TRBrace, FObj ms k # st') \<Rightarrow> Some (complete st' (JObj ms))
      | _ \<Rightarrow> None)"
| "pstep (st, PKey) t =
     (case t of TValue (JStr k) \<Rightarrow> Some (st, PColon k) | _ \<Rightarrow> None)"
| "pstep (st, PKeyOrEnd) t =
     (case (t, st) of
        (TValue (JStr k), _) \<Rightarrow> Some (st, PColon k)
      | (TRBrace, FObj ms k # st') \<Rightarrow> Some (complete st' (JObj ms))
      | _ \<Rightarrow> None)"
| "pstep (st, PValueOrEnd) t =
     (case (t, st) of
        (TRBrack, FArr es # st') \<Rightarrow> Some (complete st' (JArr (rev es)))
      | (TValue v, _) \<Rightarrow> Some (complete st v)
      | (TLBrack, _) \<Rightarrow> Some (FArr [] # st, PValueOrEnd)
      | (TLBrace, _) \<Rightarrow> Some (FObj [] [] # st, PKeyOrEnd)
      | _ \<Rightarrow> None)"
| "pstep (st, PValue) t =
     (case t of
        TValue v \<Rightarrow> Some (complete st v)
      | TLBrack \<Rightarrow> Some (FArr [] # st, PValueOrEnd)
      | TLBrace \<Rightarrow> Some (FObj [] [] # st, PKeyOrEnd)
      | _ \<Rightarrow> None)"

fun psteps :: "frame list \<times> pstate \<Rightarrow> token list \<Rightarrow> (frame list \<times> pstate) option" where
  "psteps c [] = Some c"
| "psteps c (t # ts) = (case pstep c t of None \<Rightarrow> None | Some c' \<Rightarrow> psteps c' ts)"

definition JSON_parse :: "string \<Rightarrow> json option" where
  "JSON_parse s =
     (case lex LStart s of
        None \<Rightarrow> None
      | Some ts \<Rightarrow>
          (case psteps ([], PValue) ts of
             Some (st, PDone v) \<Rightarrow> Some v
           | _ \<Rightarrow> None))"

subsection \<open>\<open>JSON.stringify\<close>\<close>

definition is_array_index :: "string \<Rightarrow> bool" where
  "is_array_index k = (k \<noteq> [] \<and> list_all is_digit k \<and> (k = ''0'' \<or> hd k \<noteq> CHR ''0'')
     \<and> digits_val 10 k < 4294967295)"

text \<open>The own properties in the order of \<open>Object.keys\<close>: the array indices in ascending
  order, then the other keys in the order of their creation.\<close>

definition own_members :: "(string \<times> 'a) list \<Rightarrow> (string \<times> 'a) list" where
  "own_members ms =
     sort_key (\<lambda>m. digits_val 10 (fst m)) (filter (\<lambda>m. is_array_index (fst m)) ms)
     @ filter (\<lambda>m. \<not> is_array_index (fst m)) ms"

definition own_keys :: "(string \<times> 'a) list \<Rightarrow> string list" where
  "own_keys ms = map fst (own_members ms)"

definition hex_digit :: "nat \<Rightarrow> char" where
  "hex_digit n = (if n < 10 then char_of (48 + n) else char_of (87 + n))"

definition quote_char :: "char \<Rightarrow> string" where
  "quote_char c =
     (if c = CHR 0x22 then [CHR 0x5C, CHR 0x22]
      else if c = CHR 0x5C then [CHR 0x5C, CHR 0x5C]
      else if c = CHR 0x08 then [CHR 0x5C, CHR ''b'']
      else if c = CHR 0x0C then [CHR 0x5C, CHR ''f'']
      else if c = CHR 0x0A then [CHR 0x5C, CHR ''n'']
      else if c = CHR 0x0D then [CHR 0x5C, CHR ''r'']
      else if c = CHR 0x09 then [CHR 0x5C, CHR ''t'']
      else if code c < 32
        then [CHR 0x5C, CHR ''u'', CHR ''0'', CHR ''0'', hex_digit (code c div 16), hex_digit (code c mod 16)]
      else [c])"

definition quote :: "string \<Rightarrow> string" where
  "quote s = CHR 0x22 # concat (map quote_char s) @ [CHR 0x22]"

fun join :: "string \<Rightarrow> string list \<Rightarrow> string" where
  "join sep [] = []"
| "join sep [x] = x"
| "join sep (x # y # ys) = x @ sep @ join sep (y # ys)"

fun JSON_stringify :: "json \<Rightarrow> string" where
  "JSON_stringify JNull = ''null''"
| "JSON_stringify (JBool b) = (if b then ''true'' else ''false'')"
| "JSON_stringify (JNum n) =
     (case n of Fin r \<Rightarrow> num_to_string n | _ \<Rightarrow> ''null'')"
| "JSON_stringify (JStr s) = quote s"
| "JSON_stringify (JArr xs) = ''['' @ join '','' (map JSON_stringify xs) @ '']''"
| "JSON_stringify (JObj ms) =
     ''{'' @ join '','' (map (\<lambda>(k, t). quote k @ '':'' @ t)
                          (own_members (map (\<lambda>(k, v). (k, JSON_stringify v)) ms))) @ ''}''"

section \<open>Schema validator (\<^verbatim>\<open>utils/validators.ts\<close>)\<close>

record ValidationError =
  rowIndex :: nat
  field :: string
  message :: string

record ValidationResult =
  validated :: bool
  errors :: "ValidationError list"

definition getIDField :: "string \<Rightarrow> string" where
  "getIDField entityType =
     (if entityType = ''clients'' then ''ClientID''
      else if entityType = ''workers'' then ''WorkerID''
      else if entityType = ''tasks'' then ''TaskID''
      else ''ID'')"

text \<open>The guard of every entity-specific check:
  \<^verbatim>\<open>v !== undefined && v !== null && v !== ''\<close>.\<close>

definition present :: "cell \<Rightarrow> bool" where
  "present v = (v \<noteq> CUndefined \<and> v \<noteq> CNull \<and> v \<noteq> CStr [])"

text \<open>\<open>JSON.parse(v)\<close> of a cell: the argument is converted to a string first.\<close>

definition parse_cell :: "cell \<Rightarrow> json option" where
  "parse_cell v = JSON_parse (ToString v)"

definition isArray :: "json \<Rightarrow> bool" where
  "isArray j = (case j of JArr _ \<Rightarrow> True | _ \<Rightarrow> False)"

text \<open>\<^verbatim>\<open>/^\d+\s*-\s*\d+$/\<close>\<close>

definition phasePattern :: "rx_item list" where
  "phasePattern = [Plus Digit, Star Space, Lit (CHR ''-''), Star Space, Plus Digit]"

definition rx_test :: "bool \<Rightarrow> rx_item list \<Rightarrow> string \<Rightarrow> bool" where
  "rx_test ic r s = (rx_match ic r s [] \<noteq> None)"

text \<open>Each validator is a sequence of guarded checks that push onto the shared error
  list; every check is a definition of its own here, named after its field, and the
  validator runs them in the order of the source.\<close>

definition check_PriorityLevel :: "row \<Rightarrow> nat \<Rightarrow> ValidationError list \<Rightarrow> ValidationError list" where
  "check_PriorityLevel row i errs =
     (if present (get_prop row ''PriorityLevel'') then
        (let priority = Number (get_prop row ''PriorityLevel'') in
         if isNaN priority \<or> num_lt priority (Fin 1) \<or> num_gt priority (Fin 5)
         then errs @ [\<lparr>rowIndex = i, field = ''PriorityLevel'',
                 message = ''PriorityLevel must be a number between 1 and 5''\<rparr>]
         else errs)
      else errs)"

text \<open>\<open>row.RequestedTaskIDs.split\<close> is a method of strings only: on any other value the
  call throws a \<open>TypeError\<close>.\<close>

definition check_RequestedTaskIDs ::
  "row \<Rightarrow> nat \<Rightarrow> ValidationError list \<Rightarrow> js_error + ValidationError list" where
  "check_RequestedTaskIDs row i errs =
     (if present (get_prop row ''RequestedTaskIDs'') then
        (case get_prop row ''RequestedTaskIDs'' of
           CStr s \<Rightarrow>
             (let taskIds = map trim (split_on (CHR '','') s) in
              if length taskIds = 0 \<or> list_ex (\<lambda>t. t = []) taskIds
              then Inr (errs @ [\<lparr>rowIndex = i, field = ''RequestedTaskIDs'',
                     message = ''RequestedTaskIDs must contain valid task IDs separated by commas''\<rparr>])
              else Inr errs)
         | _ \<Rightarrow> Inl (TypeError ''row.RequestedTaskIDs.split is not a function''))
      else Inr errs)"

definition check_AttributesJSON :: "row \<Rightarrow> nat \<Rightarrow> ValidationError list \<Rightarrow> ValidationError list" where
  "check_AttributesJSON row i errs =
     (if present (get_prop row ''AttributesJSON'') then
        (case parse_cell (get_prop row ''AttributesJSON'') of
           Some _ \<Rightarrow> errs
         | None \<Rightarrow> errs @ [\<lparr>rowIndex = i, field = ''AttributesJSON'',
                      message = ''AttributesJSON must be valid JSON''\<rparr>])
      else errs)"

definition validateClient ::
  "row \<Rightarrow> nat \<Rightarrow> ValidationError list \<Rightarrow> js_error + ValidationError list" where
  "validateClient row i errs =
     (case check_RequestedTaskIDs row i (check_PriorityLevel row i errs) of
        Inl e \<Rightarrow> Inl e
      | Inr errs2 \<Rightarrow> Inr (check_AttributesJSON row i errs2))"

definition check_AvailableSlots :: "row \<Rightarrow> nat \<Rightarrow> ValidationError list \<Rightarrow> ValidationError list" where
  "check_AvailableSlots row i errs =
     (if present (get_prop row ''AvailableSlots'') then
        (case parse_cell (get_prop row ''AvailableSlots'') of
           Some slots \<Rightarrow>
             if \<not> isArray slots
             then errs @ [\<lparr>rowIndex = i, field = ''AvailableSlots'',
                     message = ''AvailableSlots must be a valid JSON array''\<rparr>]
             else errs
         | None \<Rightarrow> errs @ [\<lparr>rowIndex = i, field = ''AvailableSlots'',
                     message = ''AvailableSlots must be valid JSON''\<rparr>])
      else errs)"

definition check_MaxLoadPerPhase :: "row \<Rightarrow> nat \<Rightarrow> ValidationError list \<Rightarrow> ValidationError list" where
  "check_MaxLoadPerPhase row i errs =
     (if present (get_prop row ''MaxLoadPerPhase'') then
        (let maxLoad = Number (get_prop row ''MaxLoadPerPhase'') in
         if isNaN maxLoad \<or> num_lt maxLoad (Fin 1)
         then errs @ [\<lparr>rowIndex = i, field = ''MaxLoadPerPhase'',
                 message = ''MaxLoadPerPhase must be a positive number''\<rparr>]
         else errs)
      else errs)"

definition check_QualificationLevel :: "row \<Rightarrow> nat \<Rightarrow> ValidationError list \<Rightarrow> ValidationError list" where
  "check_QualificationLevel row i errs =
     (if present (get_prop row ''QualificationLevel'') then
        (let qualification = Number (get_prop row ''QualificationLevel'') in
         if isNaN qualification \<or> num_lt qualification (Fin 1) \<or> num_gt qualification (Fin 5)
         then errs @ [\<lparr>rowIndex = i, field = ''QualificationLevel'',
                 message = ''QualificationLevel must be a number between 1 and 5''\<rparr>]
         else errs)
      else errs)"

definition validateWorker ::
  "row \<Rightarrow> nat \<Rightarrow> ValidationError list \<Rightarrow> js_error + ValidationError list" where
  "validateWorker row i errs =
     Inr (check_QualificationLevel row i
            (check_MaxLoadPerPhase row i (check_AvailableSlots row i errs)))"

definition check_Duration :: "row \<Rightarrow> nat \<Rightarrow> ValidationError list \<Rightarrow> ValidationError list" where
  "check_Duration row i errs =
     (if present (get_prop row ''Duration'') then
        (let duration = Number (get_prop row ''Duration'') in
         if isNaN duration \<or> num_lt duration (Fin 1)
         then errs @ [\<lparr>rowIndex = i, field = ''Duration'',
                 message = ''Duration must be a number greater than or equal to 1''\<rparr>]
         else errs)
      else errs)"

definition check_MaxConcurrent :: "row \<Rightarrow> nat \<Rightarrow> ValidationError list \<Rightarrow> ValidationError list" where
  "check_MaxConcurrent row i errs =
     (if present (get_prop row ''MaxConcurrent'') then
        (let maxConcurrent = Number (get_prop row ''MaxConcurrent'') in
         if isNaN maxConcurrent \<or> num_lt maxConcurrent (Fin 1)
         then errs @ [\<lparr>rowIndex = i, field = ''MaxConcurrent'',
                 message = ''MaxConcurrent must be a positive number''\<rparr>]
         else errs)
      else errs)"

definition check_PreferredPhases :: "row \<Rightarrow> nat \<Rightarrow> ValidationError list \<Rightarrow> ValidationError list" where
  "check_PreferredPhases row i errs =
     (if present (get_prop row ''PreferredPhases'') then
        (if \<not> rx_test False phasePattern (ToString (get_prop row ''PreferredPhases''))
         then errs @ [\<lparr>rowIndex = i, field = ''PreferredPhases'',
                 message = ''PreferredPhases must be in format \"start - end\" (e.g., \"1 - 2\")''\<rparr>]
         else errs)
      else errs)"

definition validateTask ::
  "row \<Rightarrow> nat \<Rightarrow> ValidationError list \<Rightarrow> js_error + ValidationError list" where
  "validateTask row i errs =
     Inr (check_PreferredPhases row i (check_MaxConcurrent row i (check_Duration row i errs)))"

text \<open>The body of \<open>data.forEach\<close>: the state is the error list and the set \<open>ids\<close> of the
  identifiers seen (a \<open>Set\<close> compares scalars by value). First the identifier of the row
  is checked, then the checks of the entity kind run.\<close>

definition check_id ::
  "string \<Rightarrow> row \<Rightarrow> nat \<Rightarrow> ValidationError list \<times> cell list
     \<Rightarrow> ValidationError list \<times> cell list" where
  "check_id idField row i st =
     (let v = get_prop row idField in
      if \<not> truthy v \<or> v = CStr [] then
        (fst st @ [\<lparr>rowIndex = i, field = idField, message = ''Missing '' @ idField\<rparr>], snd st)
      else if v \<in> set (snd st) then
        (fst st @ [\<lparr>rowIndex = i, field = idField,
            message = ''Duplicate '' @ idField @ '': '' @ ToString v\<rparr>], snd st)
      else (fst st, snd st @ [v]))"

definition validate_entity ::
  "string \<Rightarrow> row \<Rightarrow> nat \<Rightarrow> ValidationError list \<Rightarrow> js_error + ValidationError list" where
  "validate_entity entityType row i errs =
     (if entityType = ''clients'' then validateClient row i errs
      else if entityType = ''workers'' then validateWorker row i errs
      else if entityType = ''tasks'' then validateTask row i errs
      else Inr errs)"

definition validate_row ::
  "string \<Rightarrow> row \<Rightarrow> nat \<Rightarrow> ValidationError list \<times> cell list
     \<Rightarrow> js_error + ValidationError list \<times> cell list" where
  "validate_row entityType row i st =
     (let st1 = check_id (getIDField entityType) row i st in
      case validate_entity entityType row i (fst st1) of
        Inl e \<Rightarrow> Inl e
      | Inr errs' \<Rightarrow> Inr (errs', snd st1))"

fun validate_rows ::
  "string \<Rightarrow> row list \<Rightarrow> nat \<Rightarrow> ValidationError list \<times> cell list
     \<Rightarrow> js_error + ValidationError list \<times> cell list" where
  "validate_rows entityType [] i st = Inr st"
| "validate_rows entityType (row # rows) i st =
     (case validate_row entityType row i st of
        Inl e \<Rightarrow> Inl e
      | Inr st' \<Rightarrow> validate_rows entityType rows (Suc i) st')"

text \<open>\<open>validateData(entityType, data)\<close>; \<open>None\<close> is an absent dataset (\<open>!data\<close>).\<close>

definition validateData :: "string \<Rightarrow> row list option \<Rightarrow> js_error + ValidationResult" where
  "validateData entityType data =
     (case data of
        None \<Rightarrow> Inr \<lparr>validated = True, errors = []\<rparr>
      | Some rows \<Rightarrow>
          if length rows = 0 then Inr \<lparr>validated = True, errors = []\<rparr>
          else (case validate_rows entityType rows 0 ([], []) of
                  Inl e \<Rightarrow> Inl e
                | Inr st \<Rightarrow> Inr \<lparr>validated = (length (fst st) = 0), errors = fst st\<rparr>))"

section \<open>Instruction parser (\<^verbatim>\<open>NaturalLanguageEditor\<close>)\<close>

record EditChange =
  rowIndex :: int
  field :: string
  oldValue :: cell
  newValue :: scalar

text \<open>\<^verbatim>\<open>/^set\s+(\w+)\s*=\s*([^\s]+)\s+where\s+(\w+)\s*=\s*([^\s]+)$/i\<close>\<close>

definition cond_pattern :: "rx_item list" where
  "cond_pattern =
     lits ''set'' @ [Plus Space, CapPlus Word, Star Space, Lit (CHR ''=''), Star Space,
       CapPlus NonSpace, Plus Space]
     @ lits ''where'' @ [Plus Space, CapPlus Word, Star Space, Lit (CHR ''=''), Star Space,
       CapPlus NonSpace]"

text \<open>\<^verbatim>\<open>/^set\s+(\w+)\s*=\s*([^\s]+)$/i\<close>\<close>

definition all_pattern :: "rx_item list" where
  "all_pattern =
     lits ''set'' @ [Plus Space, CapPlus Word, Star Space, Lit (CHR ''=''), Star Space,
       CapPlus NonSpace]"

text \<open>The JSON branch: the current value is a string in braces that parses; every key of
  the object takes the replacement text, and the object is written back as text. \<open>None\<close>
  when the branch does not return (the guard fails, or \<open>JSON.parse\<close> throws and the
  exception is swallowed). A text in braces that parses is an object.\<close>

definition json_branch :: "cell \<Rightarrow> string \<Rightarrow> string option" where
  "json_branch cur nv =
     (case cur of
        CStr s \<Rightarrow>
          if startsWith (trim s) ''{'' \<and> endsWith (trim s) ''}'' then
            (case JSON_parse s of
               Some (JObj ms) \<Rightarrow> Some (JSON_stringify (JObj (map (\<lambda>(k, v). (k, JStr nv)) ms)))
             | _ \<Rightarrow> None)
          else None
      | _ \<Rightarrow> None)"

definition includes_comma :: "cell \<Rightarrow> bool" where
  "includes_comma cur = (case cur of CStr s \<Rightarrow> CHR '','' \<in> set s | _ \<Rightarrow> False)"

text \<open>The change computed for one row: the body that both forms of the instruction
  share.\<close>

definition edit_row :: "string \<Rightarrow> string \<Rightarrow> row \<Rightarrow> nat \<Rightarrow> EditChange" where
  "edit_row fld nv row i =
     (let cur = get_prop row fld in
      case json_branch cur nv of
        Some t \<Rightarrow> \<lparr>rowIndex = int i, field = fld, oldValue = cur, newValue = SStr t\<rparr>
      | None \<Rightarrow>
          if includes_comma cur
          then \<lparr>rowIndex = int i, field = fld, oldValue = cur,
                 newValue = SStr (ToString cur @ '','' @ nv)\<rparr>
          else \<lparr>rowIndex = int i, field = fld, oldValue = cur, newValue = SStr nv\<rparr>)"

definition parseEditInstruction :: "string \<Rightarrow> row list \<Rightarrow> EditChange list" where
  "parseEditInstruction instruction data =
     (case rx_match True cond_pattern instruction [] of
        Some [fld, nv, whereField, wv] \<Rightarrow>
          (let whereValue = toLowerCase wv in
           List.map_filter
             (\<lambda>(i, row). if toLowerCase (ToString (get_prop row whereField)) = whereValue
                          then Some (edit_row fld nv row i) else None)
             (enumerate 0 data))
      | _ \<Rightarrow>
          (case rx_match True all_pattern instruction [] of
             Some [fld, nv] \<Rightarrow> map (\<lambda>(i, row). edit_row fld nv row i) (enumerate 0 data)
           | _ \<Rightarrow> []))"

text \<open>The guarded assignment that the three apply loops share,
  \<^verbatim>\<open>if (data[c.rowIndex]) { data[c.rowIndex][c.field] = c.newValue }\<close>: an entry whose
  \<open>rowIndex\<close> has no row is skipped. The entry is an \<open>EditChange\<close> or any extension of it.\<close>

definition apply_change :: "row list \<Rightarrow> 'a EditChange_scheme \<Rightarrow> row list" where
  "apply_change data change =
     (if 0 \<le> rowIndex change \<and> rowIndex change < int (length data)
      then data[nat (rowIndex change) :=
                  set_prop (data ! nat (rowIndex change)) (field change) (newValue change)]
      else data)"

text \<open>\<open>handleApplyChanges\<close>: every pending change is written in order into a copy of the
  dataset. \<open>None\<close>: nothing is pending and the handler returns without a new dataset.\<close>

definition handleApplyChanges :: "EditChange list \<Rightarrow> row list \<Rightarrow> row list option" where
  "handleApplyChanges pendingChanges data =
     (if length pendingChanges = 0 then None
      else Some (foldl apply_change data pendingChanges))"

section \<open>Applying suggested fixes (\<^verbatim>\<open>AutoFixPanel\<close>)\<close>





section \<open>AI contract gateway (\<^verbatim>\<open>lib/gemini\<close>, \<^verbatim>\<open>lib/ai\<close>)\<close>

subsection \<open>The provider call\<close>

text \<open>What \<open>fetch\<close> resolves to: the status and the body of the reply. \<open>Inl\<close> is a
  rejected \<open>fetch\<close>. The prompt only matters through the reply, so the reply is the input
  of the model.\<close>

record http_response =
  ok :: bool
  status :: nat
  body :: string

text \<open>A property read \<open>v[k]\<close> of a JSON value other than \<open>null\<close>, for the keys of the
  reply's path (names, and array indices); \<open>None\<close> is \<open>undefined\<close>.\<close>

definition get_member :: "json \<Rightarrow> string \<Rightarrow> json option" where
  "get_member v k =
     (case v of
        JObj ms \<Rightarrow> map_of ms k
      | JArr xs \<Rightarrow>
          if is_array_index k \<and> digits_val 10 k < int (length xs)
          then Some (xs ! nat (digits_val 10 k)) else None
      | JStr t \<Rightarrow>
          if is_array_index k \<and> digits_val 10 k < int (length t)
          then Some (JStr [t ! nat (digits_val 10 k)]) else None
      | _ \<Rightarrow> None)"

text \<open>One link \<open>?.[k]\<close> of an optional chain: \<open>undefined\<close> and \<open>null\<close> end the chain
  with \<open>undefined\<close>.\<close>

definition opt_member :: "json option \<Rightarrow> string \<Rightarrow> json option" where
  "opt_member b k =
     (case b of None \<Rightarrow> None | Some JNull \<Rightarrow> None | Some v \<Rightarrow> get_member v k)"

text \<open>\<^verbatim>\<open>data.candidates?.[0]?.content?.parts?.[0]?.text\<close>; the first read is not optional
  and throws on \<open>null\<close>.\<close>

definition reply_text :: "json \<Rightarrow> js_error + json option" where
  "reply_text data =
     (if data = JNull
      then Inl (TypeError ''Cannot read properties of null (reading 'candidates')'')
      else Inr (foldl opt_member (get_member data ''candidates'')
                  [''0'', ''content'', ''parts'', ''0'', ''text'']))"

definition geminiChatCompletion :: "js_error + http_response \<Rightarrow> js_error + json" where
  "geminiChatCompletion reply =
     (case reply of
        Inl e \<Rightarrow> Inl e
      | Inr response \<Rightarrow>
          if \<not> ok response
          then Inl (Error (''Gemini API error: '' @ show_int (int (status response)) @ '' ''
                     @ body response))
          else (case JSON_parse (body response) of
                  None \<Rightarrow> Inl (SyntaxError ''Unexpected token in JSON'')
                | Some data \<Rightarrow>
                    (case reply_text data of
                       Inl e \<Rightarrow> Inl e
                     | Inr None \<Rightarrow> Inr (JStr [])
                     | Inr (Some t) \<Rightarrow> Inr (if truthy_json t then t else JStr []))))"

subsection \<open>Cleaning the reply\<close>

text \<open>\<^verbatim>\<open>text.replace(/```json|```/g, '').trim()\<close>\<close>

definition fence :: string where
  "fence = [CHR 0x60, CHR 0x60, CHR 0x60]"

function strip_fences :: "string \<Rightarrow> string" where
  "strip_fences [] = []"
| "strip_fences (c # cs) =
     (if startsWith (c # cs) (fence @ ''json'') then strip_fences (drop 7 (c # cs))
      else if startsWith (c # cs) fence then strip_fences (drop 3 (c # cs))
      else c # strip_fences cs)"
  by pat_completeness auto
termination
  by (relation "measure length") auto

definition extractJsonBlock :: "string \<Rightarrow> string" where
  "extractJsonBlock text = trim (strip_fences text)"

subsection \<open>Mapping a filter back to the columns\<close>

text \<open>
  The pattern is built by a template literal,
  \<^verbatim>\<open>new RegExp(`(?<=row\.)${col.toLowerCase()}(?=\b)`, 'g')\<close>. In a template literal
  \<^verbatim>\<open>\.\<close> is the character \<^verbatim>\<open>.\<close> and \<^verbatim>\<open>\b\<close> is the backspace character (code 8), so the
  pattern that reaches \<open>RegExp\<close> is \<^verbatim>\<open>(?<=row.)\<close>, the lower-cased name, then a lookahead
  for a backspace: a match is the lower-cased name, after \<^verbatim>\<open>row\<close> and one more character
  that is no line terminator, and before a backspace character. The name is read as
  literal text: the model is of the column names that \<open>literal_name\<close> accepts, those without
  a character that a pattern or a replacement text reads specially (with such a character
  \<open>RegExp\<close> may throw, or match something else).
\<close>

definition literal_name :: "string \<Rightarrow> bool" where
  "literal_name col =
     list_all (\<lambda>c. c \<notin> set ''.*+?^$()[]{}|'' \<and> c \<noteq> CHR 0x5C) col"

definition line_terminator :: "char \<Rightarrow> bool" where
  "line_terminator c = (code c = 10 \<or> code c = 13)"

text \<open>\<open>pre\<close> is the text before the position, last character first.\<close>

definition lookbehind :: "string \<Rightarrow> bool" where
  "lookbehind pre =
     (case pre of
        c4 # c3 # c2 # c1 # _ \<Rightarrow>
          c1 = CHR ''r'' \<and> c2 = CHR ''o'' \<and> c3 = CHR ''w'' \<and> \<not> line_terminator c4
      | _ \<Rightarrow> False)"

definition match_here :: "string \<Rightarrow> string \<Rightarrow> string \<Rightarrow> bool" where
  "match_here lc pre rest =
     (lookbehind pre \<and> startsWith rest lc
      \<and> (case drop (length lc) rest of [] \<Rightarrow> False | c # _ \<Rightarrow> c = CHR 0x08))"

text \<open>\<open>mapped.replace(regex, col)\<close> with the flag \<open>g\<close>, from left to right; \<open>n\<close> counts the
  characters of a match that are still to be dropped.\<close>

fun replace_scan :: "string \<Rightarrow> string \<Rightarrow> string \<Rightarrow> nat \<Rightarrow> string \<Rightarrow> string" where
  "replace_scan lc col pre n [] = []"
| "replace_scan lc col pre (Suc n) (c # cs) = replace_scan lc col (c # pre) n cs"
| "replace_scan lc col pre 0 (c # cs) =
     (if match_here lc pre (c # cs) then
        col @ (if lc = [] then c # replace_scan lc col (c # pre) 0 cs
               else replace_scan lc col (c # pre) (length lc - 1) cs)
      else c # replace_scan lc col (c # pre) 0 cs)"

definition mapFilterFunctionToOriginalColumns :: "string \<Rightarrow> string list \<Rightarrow> string" where
  "mapFilterFunctionToOriginalColumns filterFunction columns =
     foldl (\<lambda>mapped col. replace_scan (toLowerCase col) col [] 0 mapped) filterFunction columns"

subsection \<open>The five operations\<close>

text \<open>A \<open>catch\<close> that throws its own error instead.\<close>

definition rethrow :: "js_error \<Rightarrow> js_error + 'a \<Rightarrow> js_error + 'a" where
  "rethrow e r = (case r of Inl _ \<Rightarrow> Inl e | Inr v \<Rightarrow> Inr v)"

text \<open>The steps the operations share: no reply text is an error; a reply that is no
  string has no \<open>replace\<close>; the cleaned text is parsed.\<close>

definition response_text :: "json \<Rightarrow> js_error + string" where
  "response_text response =
     (if \<not> truthy_json response then Inl (Error ''No response from Gemini'')
      else (case response of
              JStr t \<Rightarrow> Inr t
            | _ \<Rightarrow> Inl (TypeError ''text.replace is not a function'')))"

definition columns_of :: "row list \<Rightarrow> string list" where
  "columns_of data = (if 0 < length data then own_keys (own (hd data)) else [])"

definition generateFilter ::
  "js_error + http_response \<Rightarrow> string \<Rightarrow> row list \<Rightarrow> string \<Rightarrow> js_error + json" where
  "generateFilter reply userQuery data entityType =
     rethrow (Error ''Unable to parse query.'')
       (case geminiChatCompletion reply of
          Inl e \<Rightarrow> Inl e
        | Inr response \<Rightarrow>
            (case response_text response of
               Inl e \<Rightarrow> Inl e
             | Inr t \<Rightarrow>
                 rethrow (Error ''Unable to parse query.'')
                   (case JSON_parse (extractJsonBlock t) of
                      None \<Rightarrow> Inl (SyntaxError ''Unexpected token in JSON'')
                    | Some JNull \<Rightarrow>
                        Inl (TypeError ''Cannot read properties of null (reading 'filterFunction')'')
                    | Some (JObj ms) \<Rightarrow>
                        (case map_of ms ''filterFunction'' of
                           Some (JStr f) \<Rightarrow>
                             if f = [] then Inl (Error ''Unable to parse query.'')
                             else Inr (JObj (AList.update ''filterFunction''
                                    (JStr (mapFilterFunctionToOriginalColumns f (columns_of data)))
                                    ms))
                         | _ \<Rightarrow> Inl (Error ''Unable to parse query.''))
                    | Some _ \<Rightarrow> Inl (Error ''Unable to parse query.''))))"






section \<open>Notions used to state the properties\<close>

text \<open>The fields that the checks of the three entity kinds name.\<close>

definition entity_fields :: "string set" where
  "entity_fields = {''PriorityLevel'', ''RequestedTaskIDs'', ''AttributesJSON'',
     ''AvailableSlots'', ''MaxLoadPerPhase'', ''QualificationLevel'',
     ''Duration'', ''MaxConcurrent'', ''PreferredPhases''}"

text \<open>\<open>errs'\<close> is \<open>errs\<close> followed by errors of row \<open>i\<close> that name fields of \<open>F\<close>.\<close>

definition adds :: "nat \<Rightarrow> string set \<Rightarrow> ValidationError list \<Rightarrow> ValidationError list \<Rightarrow> bool" where
  "adds i F errs errs' =
     (\<exists>new. errs' = errs @ new
        \<and> (\<forall>e\<in>set new. ValidationError.rowIndex e = i \<and> ValidationError.field e \<in> F))"

text \<open>An identifier that passes the check for a missing one.\<close>

definition valid_id :: "cell \<Rightarrow> bool" where
  "valid_id v = (truthy v \<and> v \<noteq> CStr [])"

text \<open>The errors of the identifier check of a row, given the identifiers seen before.\<close>

definition id_errors :: "string \<Rightarrow> row \<Rightarrow> nat \<Rightarrow> cell set \<Rightarrow> ValidationError list" where
  "id_errors idField row i seen =
     (if \<not> valid_id (get_prop row idField) then
        [\<lparr>ValidationError.rowIndex = i, field = idField, message = ''Missing '' @ idField\<rparr>]
      else if get_prop row idField \<in> seen then
        [\<lparr>ValidationError.rowIndex = i, field = idField,
           message = ''Duplicate '' @ idField @ '': '' @ ToString (get_prop row idField)\<rparr>]
      else [])"

text \<open>The identifiers that rows contribute to the set of the identifiers seen.\<close>

definition seen_ids :: "string \<Rightarrow> row list \<Rightarrow> cell set" where
  "seen_ids idField rows = {v. valid_id v \<and> (\<exists>r\<in>set rows. get_prop r idField = v)}"

text \<open>The error of the \<open>PriorityLevel\<close> check of a row, if any.\<close>

definition priority_errors :: "row \<Rightarrow> nat \<Rightarrow> ValidationError list" where
  "priority_errors row i =
     (if present (get_prop row ''PriorityLevel'')
         \<and> (isNaN (Number (get_prop row ''PriorityLevel''))
             \<or> num_lt (Number (get_prop row ''PriorityLevel'')) (Fin 1)
             \<or> num_gt (Number (get_prop row ''PriorityLevel'')) (Fin 5))
      then [\<lparr>ValidationError.rowIndex = i, field = ''PriorityLevel'',
              message = ''PriorityLevel must be a number between 1 and 5''\<rparr>]
      else [])"



text \<open>The assignments that a batch holds for row \<open>i\<close>: field and new value of the entries
  with that \<open>rowIndex\<close>, in the order of the batch.\<close>

definition writes_to :: "nat \<Rightarrow> 'a EditChange_scheme list \<Rightarrow> (string \<times> scalar) list" where
  "writes_to i batch =
     map (\<lambda>c. (EditChange.field c, newValue c)) (filter (\<lambda>c. EditChange.rowIndex c = int i) batch)"

text \<open>A row after a sequence of assignments \<open>row[k] = v\<close>.\<close>

definition assign_all :: "row \<Rightarrow> (string \<times> scalar) list \<Rightarrow> row" where
  "assign_all r ws = foldl (\<lambda>r (k, v). set_prop r k v) r ws"

text \<open>The dataset in which every row has received the assignments that the batch holds for
  it, and nothing else.\<close>

definition rows_after :: "row list \<Rightarrow> 'a EditChange_scheme list \<Rightarrow> row list" where
  "rows_after data batch = map (\<lambda>(i, r). assign_all r (writes_to i batch)) (enumerate 0 data)"

text \<open>The path of the reply text, read with optional links from the body on.\<close>

definition reply_path :: "json \<Rightarrow> json option" where
  "reply_path payload =
     foldl opt_member (Some payload) [''candidates'', ''0'', ''content'', ''parts'', ''0'', ''text'']"


section \<open>Properties of the schema validator\<close>

lemma adds_refl: "adds i F errs errs"
  by (simp add: adds_def)

lemma adds_trans: "adds i F a b \<Longrightarrow> adds i G b c \<Longrightarrow> adds i (F \<union> G) a c"
  unfolding adds_def by (elim exE conjE) (rule_tac x = "new @ newa" in exI, auto)

lemma adds_mono: "adds i F a b \<Longrightarrow> F \<subseteq> G \<Longrightarrow> adds i G a b"
  unfolding adds_def by blast

lemma check_PriorityLevel_eq:
  "check_PriorityLevel row i errs = errs @ priority_errors row i"
  by (simp add: check_PriorityLevel_def priority_errors_def Let_def)

lemma adds_RequestedTaskIDs:
  "check_RequestedTaskIDs row i errs = Inr errs' \<Longrightarrow> adds i {''RequestedTaskIDs''} errs errs'"
  by (auto simp: check_RequestedTaskIDs_def adds_def Let_def split: if_splits cell.splits)

lemma adds_AttributesJSON: "adds i {''AttributesJSON''} errs (check_AttributesJSON row i errs)"
  by (simp add: check_AttributesJSON_def adds_def split: option.split)

lemma adds_AvailableSlots: "adds i {''AvailableSlots''} errs (check_AvailableSlots row i errs)"
  by (simp add: check_AvailableSlots_def adds_def split: option.split)

lemma adds_MaxLoadPerPhase: "adds i {''MaxLoadPerPhase''} errs (check_MaxLoadPerPhase row i errs)"
  by (simp add: check_MaxLoadPerPhase_def adds_def Let_def)

lemma adds_QualificationLevel:
  "adds i {''QualificationLevel''} errs (check_QualificationLevel row i errs)"
  by (simp add: check_QualificationLevel_def adds_def Let_def)

lemma adds_Duration: "adds i {''Duration''} errs (check_Duration row i errs)"
  by (simp add: check_Duration_def adds_def Let_def)

lemma adds_MaxConcurrent: "adds i {''MaxConcurrent''} errs (check_MaxConcurrent row i errs)"
  by (simp add: check_MaxConcurrent_def adds_def Let_def)

lemma adds_PreferredPhases: "adds i {''PreferredPhases''} errs (check_PreferredPhases row i errs)"
  by (simp add: check_PreferredPhases_def adds_def)

lemma validateClient_shape:
  assumes "validateClient row i errs = Inr errs'"
  shows "adds i {''RequestedTaskIDs'', ''AttributesJSON''} (errs @ priority_errors row i) errs'"
proof -
  from assms obtain errs2 where
    r: "check_RequestedTaskIDs row i (errs @ priority_errors row i) = Inr errs2"
    and a: "errs' = check_AttributesJSON row i errs2"
    by (auto simp: validateClient_def check_PriorityLevel_eq split: sum.splits)
  have "adds i ({''RequestedTaskIDs''} \<union> {''AttributesJSON''}) (errs @ priority_errors row i) errs'"
    unfolding a by (rule adds_trans [OF adds_RequestedTaskIDs [OF r] adds_AttributesJSON])
  then show ?thesis by (rule adds_mono) blast
qed

lemma adds_priority_errors: "adds i {''PriorityLevel''} errs (errs @ priority_errors row i)"
  by (simp add: adds_def priority_errors_def)

lemma validateClient_adds:
  assumes "validateClient row i errs = Inr errs'"
  shows "adds i entity_fields errs errs'"
  by (rule adds_mono [OF adds_trans [OF adds_priority_errors validateClient_shape [OF assms]]])
     (simp add: entity_fields_def)

lemma validateWorker_adds:
  assumes "validateWorker row i errs = Inr errs'"
  shows "adds i entity_fields errs errs'"
proof -
  have "errs' = check_QualificationLevel row i
            (check_MaxLoadPerPhase row i (check_AvailableSlots row i errs))"
    using assms by (simp add: validateWorker_def)
  then show ?thesis
    by (simp only:)
      (rule adds_mono [OF adds_trans [OF adds_trans [OF adds_AvailableSlots adds_MaxLoadPerPhase]
         adds_QualificationLevel]], simp add: entity_fields_def)
qed

lemma validateTask_adds:
  assumes "validateTask row i errs = Inr errs'"
  shows "adds i entity_fields errs errs'"
proof -
  have "errs' = check_PreferredPhases row i (check_MaxConcurrent row i (check_Duration row i errs))"
    using assms by (simp add: validateTask_def)
  then show ?thesis
    by (simp only:)
      (rule adds_mono [OF adds_trans [OF adds_trans [OF adds_Duration adds_MaxConcurrent]
         adds_PreferredPhases]], simp add: entity_fields_def)
qed

lemma validate_entity_adds:
  "validate_entity et row i errs = Inr errs' \<Longrightarrow> adds i entity_fields errs errs'"
  by (auto simp: validate_entity_def adds_refl split: if_splits
      dest: validateClient_adds validateWorker_adds validateTask_adds)

lemma check_id_eq:
  "check_id idField row i st =
     (fst st @ id_errors idField row i (set (snd st)),
      snd st @ (if valid_id (get_prop row idField) \<and> get_prop row idField \<notin> set (snd st)
                then [get_prop row idField] else []))"
  by (simp add: check_id_def id_errors_def valid_id_def Let_def)

lemma id_errors_index:
  "e \<in> set (id_errors idField row i seen) \<Longrightarrow>
     ValidationError.rowIndex e = i \<and> ValidationError.field e = idField"
  by (auto simp: id_errors_def split: if_splits)




lemma validate_row_shape:
  assumes "validate_row et row i st = Inr st'"
  shows "\<exists>new. fst st' = fst st @ id_errors (getIDField et) row i (set (snd st)) @ new
           \<and> (\<forall>e\<in>set new. ValidationError.rowIndex e = i \<and> ValidationError.field e \<in> entity_fields)
           \<and> (et = ''clients'' \<longrightarrow>
                 filter (\<lambda>e. ValidationError.field e = ''PriorityLevel'') new = priority_errors row i)
           \<and> set (snd st') = set (snd st) \<union> seen_ids (getIDField et) [row]"
proof -
  let ?st1 = "check_id (getIDField et) row i st"
  from assms have ent: "validate_entity et row i (fst ?st1) = Inr (fst st')"
    and ids: "snd st' = snd ?st1"
    by (auto simp: validate_row_def Let_def split: sum.splits)
  from validate_entity_adds [OF ent] obtain new where
    new: "fst st' = fst ?st1 @ new"
      "\<forall>e\<in>set new. ValidationError.rowIndex e = i \<and> ValidationError.field e \<in> entity_fields"
    unfolding adds_def by blast
  have prio: "filter (\<lambda>e. ValidationError.field e = ''PriorityLevel'') new = priority_errors row i"
    if "et = ''clients''"
  proof -
    from ent that have "validateClient row i (fst ?st1) = Inr (fst st')"
      by (simp add: validate_entity_def)
    from validateClient_shape [OF this] obtain new2 where
      n2: "fst st' = (fst ?st1 @ priority_errors row i) @ new2"
        "\<forall>e\<in>set new2. ValidationError.field e \<in> {''RequestedTaskIDs'', ''AttributesJSON''}"
      unfolding adds_def by blast
    from n2(1) new(1) have "new = priority_errors row i @ new2" by simp
    moreover have "filter (\<lambda>e. ValidationError.field e = ''PriorityLevel'') new2 = []"
      using n2(2) by (auto simp: filter_empty_conv)
    moreover have "filter (\<lambda>e. ValidationError.field e = ''PriorityLevel'') (priority_errors row i)
        = priority_errors row i"
      by (simp add: priority_errors_def)
    ultimately show ?thesis by simp
  qed
  have "set (snd st') = set (snd st) \<union> seen_ids (getIDField et) [row]"
    unfolding ids by (auto simp: check_id_eq seen_ids_def)
  with new prio show ?thesis
    by (intro exI [of _ new]) (simp add: check_id_eq)
qed


lemma validate_rows_range:
  "validate_rows et rows i0 st = Inr st' \<Longrightarrow>
   \<exists>new. fst st' = fst st @ new
     \<and> (\<forall>e\<in>set new. i0 \<le> ValidationError.rowIndex e
            \<and> ValidationError.rowIndex e < i0 + length rows)"
proof (induction rows arbitrary: i0 st)
  case Nil
  then show ?case by simp
next
  case (Cons row rows)
  from Cons.prems obtain st1 where
    r: "validate_row et row i0 st = Inr st1"
    and rs: "validate_rows et rows (Suc i0) st1 = Inr st'"
    by (auto split: sum.splits)
  from validate_row_shape [OF r] obtain new1 where
    n1: "fst st1 = fst st @ id_errors (getIDField et) row i0 (set (snd st)) @ new1"
      "\<forall>e\<in>set new1. ValidationError.rowIndex e = i0"
    by blast
  from Cons.IH [OF rs] obtain new2 where
    n2: "fst st' = fst st1 @ new2"
      "\<forall>e\<in>set new2. Suc i0 \<le> ValidationError.rowIndex e
          \<and> ValidationError.rowIndex e < Suc i0 + length rows"
    by blast
  show ?case
  proof (intro exI conjI ballI)
    show "fst st' = fst st @ (id_errors (getIDField et) row i0 (set (snd st)) @ new1 @ new2)"
      using n1(1) n2(1) by simp
  next
    fix e
    assume "e \<in> set (id_errors (getIDField et) row i0 (set (snd st)) @ new1 @ new2)"
    then show "i0 \<le> ValidationError.rowIndex e"
      and "ValidationError.rowIndex e < i0 + length (row # rows)"
      using n1(2) n2(2) id_errors_index [of e "getIDField et" row i0 "set (snd st)"]
      by auto
  qed
qed

lemma seen_ids_Cons:
  "seen_ids idField (row # rows) = seen_ids idField [row] \<union> seen_ids idField rows"
  by (auto simp: seen_ids_def)

lemma filter_index_id_errors:
  "filter (\<lambda>e. ValidationError.rowIndex e = m) (id_errors idField row i seen) =
     (if m = i then id_errors idField row i seen else [])"
  by (auto simp: id_errors_def)

lemma filter_all: "\<forall>e\<in>set xs. P e \<Longrightarrow> filter P xs = xs"
  by (induction xs) auto

lemma filter_none: "\<forall>e\<in>set xs. \<not> P e \<Longrightarrow> filter P xs = []"
  by (induction xs) auto

lemma validate_rows_row:
  "validate_rows et rows i0 st = Inr st' \<Longrightarrow> k < length rows \<Longrightarrow>
   \<exists>new. filter (\<lambda>e. ValidationError.rowIndex e = i0 + k) (fst st') =
       filter (\<lambda>e. ValidationError.rowIndex e = i0 + k) (fst st)
       @ id_errors (getIDField et) (rows ! k) (i0 + k)
           (set (snd st) \<union> seen_ids (getIDField et) (take k rows))
       @ new
     \<and> (\<forall>e\<in>set new. ValidationError.rowIndex e = i0 + k
            \<and> ValidationError.field e \<in> entity_fields)
     \<and> (et = ''clients'' \<longrightarrow>
           filter (\<lambda>e. ValidationError.field e = ''PriorityLevel'') new
             = priority_errors (rows ! k) (i0 + k))"
proof (induction rows arbitrary: i0 st k)
  case Nil
  then show ?case by simp
next
  case (Cons row rows)
  from Cons.prems(1) obtain st1 where
    r: "validate_row et row i0 st = Inr st1"
    and rs: "validate_rows et rows (Suc i0) st1 = Inr st'"
    by (auto split: sum.splits)
  from validate_row_shape [OF r] obtain new1 where
    n1: "fst st1 = fst st @ id_errors (getIDField et) row i0 (set (snd st)) @ new1"
      "\<forall>e\<in>set new1. ValidationError.rowIndex e = i0 \<and> ValidationError.field e \<in> entity_fields"
      "et = ''clients'' \<longrightarrow>
         filter (\<lambda>e. ValidationError.field e = ''PriorityLevel'') new1 = priority_errors row i0"
      "set (snd st1) = set (snd st) \<union> seen_ids (getIDField et) [row]"
    by blast
  show ?case
  proof (cases k)
    case 0
    from validate_rows_range [OF rs] obtain new2 where
      n2: "fst st' = fst st1 @ new2" "\<forall>e\<in>set new2. Suc i0 \<le> ValidationError.rowIndex e"
      by blast
    have "filter (\<lambda>e. ValidationError.rowIndex e = i0) new2 = []"
      using n2(2) by (intro filter_none) auto
    moreover have "filter (\<lambda>e. ValidationError.rowIndex e = i0) new1 = new1"
      using n1(2) by (intro filter_all) auto
    ultimately have "filter (\<lambda>e. ValidationError.rowIndex e = i0) (fst st') =
        filter (\<lambda>e. ValidationError.rowIndex e = i0) (fst st)
        @ id_errors (getIDField et) row i0 (set (snd st)) @ new1"
      using n1(1) n2(1) by (simp add: filter_index_id_errors)
    then show ?thesis
      using 0 n1(2,3) by (intro exI [of _ new1]) (simp add: seen_ids_def)
  next
    case (Suc k')
    then have k': "k' < length rows" using Cons.prems(2) by simp
    from Cons.IH [OF rs k'] obtain new where
      n: "filter (\<lambda>e. ValidationError.rowIndex e = Suc i0 + k') (fst st') =
            filter (\<lambda>e. ValidationError.rowIndex e = Suc i0 + k') (fst st1)
            @ id_errors (getIDField et) (rows ! k') (Suc i0 + k')
                (set (snd st1) \<union> seen_ids (getIDField et) (take k' rows))
            @ new"
        "\<forall>e\<in>set new. ValidationError.rowIndex e = Suc i0 + k'
            \<and> ValidationError.field e \<in> entity_fields"
        "et = ''clients'' \<longrightarrow>
           filter (\<lambda>e. ValidationError.field e = ''PriorityLevel'') new
             = priority_errors (rows ! k') (Suc i0 + k')"
      by blast
    have "filter (\<lambda>e. ValidationError.rowIndex e = Suc i0 + k') new1 = []"
      using n1(2) by (intro filter_none) auto
    then have "filter (\<lambda>e. ValidationError.rowIndex e = Suc i0 + k') (fst st1) =
        filter (\<lambda>e. ValidationError.rowIndex e = Suc i0 + k') (fst st)"
      using n1(1) by (simp add: filter_index_id_errors)
    moreover have "set (snd st1) \<union> seen_ids (getIDField et) (take k' rows) =
        set (snd st) \<union> seen_ids (getIDField et) (take (Suc k') (row # rows))"
      using n1(4) seen_ids_Cons [of "getIDField et" row "take k' rows"] by auto
    ultimately show ?thesis
      using n Suc by (intro exI [of _ new]) simp
  qed
qed

lemma validateData_rows:
  assumes "validateData et (Some rows) = Inr res"
  shows "\<exists>ids. validate_rows et rows 0 ([], []) = Inr (errors res, ids)"
  using assms by (cases rows) (auto simp: validateData_def split: sum.splits)

lemma validateData_absent:
  "validateData et None = Inr \<lparr>validated = True, errors = []\<rparr>"
  "validateData et (Some []) = Inr \<lparr>validated = True, errors = []\<rparr>"
  by (simp_all add: validateData_def)

text \<open>The validator returns for every dataset in which the \<open>RequestedTaskIDs\<close> of the
  client rows are texts or absent.\<close>

lemma check_RequestedTaskIDs_total:
  "\<not> present (get_prop row ''RequestedTaskIDs'') \<or> (\<exists>s. get_prop row ''RequestedTaskIDs'' = CStr s)
   \<Longrightarrow> \<exists>errs'. check_RequestedTaskIDs row i errs = Inr errs'"
  by (auto simp: check_RequestedTaskIDs_def Let_def)

lemma validate_row_total:
  assumes "entityType = ''clients'' \<longrightarrow>
     \<not> present (get_prop row ''RequestedTaskIDs'') \<or> (\<exists>s. get_prop row ''RequestedTaskIDs'' = CStr s)"
  shows "\<exists>st'. validate_row entityType row i st = Inr st'"
proof (cases "entityType = ''clients''")
  case True
  with assms check_RequestedTaskIDs_total
  obtain errs' where "check_RequestedTaskIDs row i
      (check_PriorityLevel row i (fst (check_id (getIDField entityType) row i st))) = Inr errs'"
    by blast
  with True show ?thesis
    by (simp add: validate_row_def validate_entity_def validateClient_def Let_def)
next
  case False
  then show ?thesis
    by (simp add: validate_row_def validate_entity_def validateWorker_def validateTask_def Let_def)
qed

lemma validate_rows_total:
  "(entityType = ''clients'' \<longrightarrow>
      (\<forall>row\<in>set rows. \<not> present (get_prop row ''RequestedTaskIDs'')
          \<or> (\<exists>s. get_prop row ''RequestedTaskIDs'' = CStr s)))
   \<Longrightarrow> \<exists>st'. validate_rows entityType rows i st = Inr st'"
proof (induction rows arbitrary: i st)
  case Nil
  then show ?case by simp
next
  case (Cons row rows)
  from Cons.prems validate_row_total [of entityType row i st]
  obtain st1 where "validate_row entityType row i st = Inr st1" by auto
  moreover from Cons.IH [of "Suc i" st1] Cons.prems
  obtain st' where "validate_rows entityType rows (Suc i) st1 = Inr st'" by auto
  ultimately show ?case by simp
qed

lemma validateData_total_on_text_task_ids:
  assumes "entityType = ''clients'' \<longrightarrow>
      (\<forall>row\<in>set rows. \<not> present (get_prop row ''RequestedTaskIDs'')
          \<or> (\<exists>s. get_prop row ''RequestedTaskIDs'' = CStr s))"
  shows "\<exists>res. validateData entityType (Some rows) = Inr res"
  using validate_rows_total [OF assms, of 0 "([], [])"]
  by (auto simp: validateData_def)

text \<open>
  C2: the validator is to return a result for every dataset, whatever the types of the
  checked values. For a client row whose \<open>RequestedTaskIDs\<close> is the number 5 the code
  calls \<open>split\<close> on a number and throws a \<open>TypeError\<close>: no result is returned.
\<close>

theorem validateData_throws_on_numeric_task_ids:
  "validateData ''clients''
     (Some [plain [(''ClientID'', SStr ''C1''), (''RequestedTaskIDs'', SNum (Fin 5))]])
   = Inl (TypeError ''row.RequestedTaskIDs.split is not a function'')"
  by code_simp

text \<open>
  C9: every error in a result of the validator has a \<open>rowIndex\<close> below the number of rows of
  the dataset that was validated.
\<close>

theorem validation_errors_in_range:
  assumes "validateData entityType data = Inr res" and "e \<in> set (errors res)"
  shows "\<exists>rows. data = Some rows \<and> ValidationError.rowIndex e < length rows"
proof (cases data)
  case None
  with assms show ?thesis by (auto simp: validateData_def)
next
  case (Some rows)
  from validateData_rows [OF assms(1) [unfolded Some]] obtain ids where
    "validate_rows entityType rows 0 ([], []) = Inr (errors res, ids)" ..
  from validate_rows_range [OF this] assms(2) Some show ?thesis by auto
qed

theorem validation_errors_in_range_witness:
  "validateData ''clients'' (Some [plain [(''ClientID'', SStr ''A'')], plain [(''ClientID'', SStr ''A'')]])
     = Inr \<lparr>validated = False,
            errors = [\<lparr>ValidationError.rowIndex = 1, field = ''ClientID'',
                        message = ''Duplicate ClientID: A''\<rparr>]\<rparr>
   \<and> (1::nat) < length [plain [(''ClientID'', SStr ''A'')], plain [(''ClientID'', SStr ''A'')]]"
proof -
  have ev: "validateData ''clients'' (Some [plain [(''ClientID'', SStr ''A'')], plain [(''ClientID'', SStr ''A'')]])
     = Inr \<lparr>validated = False,
            errors = [\<lparr>ValidationError.rowIndex = 1, field = ''ClientID'',
                        message = ''Duplicate ClientID: A''\<rparr>]\<rparr>"
    by code_simp
  from validation_errors_in_range [OF ev,
      of "\<lparr>ValidationError.rowIndex = 1, field = ''ClientID'', message = ''Duplicate ClientID: A''\<rparr>"]
  show ?thesis using ev by simp
qed




text \<open>
  C5, as the code has it: for every client row, the result holds exactly one
  \<open>PriorityLevel\<close> error of that row when the value is present, not empty, and either not
  numeric or numerically below 1 or above 5, and none otherwise. A value between 1 and 5
  that is no integer is accepted.
\<close>

theorem priority_level_flagged:
  assumes "validateData ''clients'' (Some rows) = Inr res" and "i < length rows"
  shows "filter (\<lambda>e. ValidationError.rowIndex e = i
              \<and> ValidationError.field e = ''PriorityLevel'') (errors res) =
         (if present (get_prop (rows ! i) ''PriorityLevel'')
             \<and> (isNaN (Number (get_prop (rows ! i) ''PriorityLevel''))
                 \<or> num_lt (Number (get_prop (rows ! i) ''PriorityLevel'')) (Fin 1)
                 \<or> num_gt (Number (get_prop (rows ! i) ''PriorityLevel'')) (Fin 5))
          then [\<lparr>ValidationError.rowIndex = i, field = ''PriorityLevel'',
                  message = ''PriorityLevel must be a number between 1 and 5''\<rparr>]
          else [])"
proof -
  from validateData_rows [OF assms(1)] obtain ids where
    "validate_rows ''clients'' rows 0 ([], []) = Inr (errors res, ids)" ..
  from validate_rows_row [OF this assms(2)] obtain new where
    n: "filter (\<lambda>e. ValidationError.rowIndex e = i) (errors res) =
          id_errors (getIDField ''clients'') (rows ! i) i
            (seen_ids (getIDField ''clients'') (take i rows)) @ new"
      "filter (\<lambda>e. ValidationError.field e = ''PriorityLevel'') new = priority_errors (rows ! i) i"
    by auto
  have "filter (\<lambda>e. ValidationError.field e = ''PriorityLevel'')
      (id_errors (getIDField ''clients'') (rows ! i) i
         (seen_ids (getIDField ''clients'') (take i rows))) = []"
    by (intro filter_none) (auto dest!: id_errors_index simp: getIDField_def)
  moreover have "filter (\<lambda>e. ValidationError.rowIndex e = i
        \<and> ValidationError.field e = ''PriorityLevel'') (errors res)
      = filter (\<lambda>e. ValidationError.field e = ''PriorityLevel'')
          (filter (\<lambda>e. ValidationError.rowIndex e = i) (errors res))"
    by (simp add: conj_commute)
  ultimately show ?thesis
    using n by (simp add: priority_errors_def)
qed

theorem priority_level_flagged_witness:
  "validateData ''clients''
     (Some [plain [(''ClientID'', SStr ''A''), (''PriorityLevel'', SNum (Fin 0))],
            plain [(''ClientID'', SStr ''B''), (''PriorityLevel'', SNum (Fin 6))],
            plain [(''ClientID'', SStr ''C''), (''PriorityLevel'', SStr ''abc'')],
            plain [(''ClientID'', SStr ''D''), (''PriorityLevel'', SStr [])]])
     = Inr \<lparr>validated = False,
            errors = [\<lparr>ValidationError.rowIndex = 0, field = ''PriorityLevel'',
                        message = ''PriorityLevel must be a number between 1 and 5''\<rparr>,
                      \<lparr>ValidationError.rowIndex = 1, field = ''PriorityLevel'',
                        message = ''PriorityLevel must be a number between 1 and 5''\<rparr>,
                      \<lparr>ValidationError.rowIndex = 2, field = ''PriorityLevel'',
                        message = ''PriorityLevel must be a number between 1 and 5''\<rparr>]\<rparr>
   \<and> (present (CStr ''abc'') \<and> isNaN (Number (CStr ''abc'')))
   \<and> \<not> present (CStr [])"
proof -
  let ?rows = "[plain [(''ClientID'', SStr ''A''), (''PriorityLevel'', SNum (Fin 0))],
            plain [(''ClientID'', SStr ''B''), (''PriorityLevel'', SNum (Fin 6))],
            plain [(''ClientID'', SStr ''C''), (''PriorityLevel'', SStr ''abc'')],
            plain [(''ClientID'', SStr ''D''), (''PriorityLevel'', SStr [])]]"
  have ev: "validateData ''clients'' (Some ?rows)
     = Inr \<lparr>validated = False,
            errors = [\<lparr>ValidationError.rowIndex = 0, field = ''PriorityLevel'',
                        message = ''PriorityLevel must be a number between 1 and 5''\<rparr>,
                      \<lparr>ValidationError.rowIndex = 1, field = ''PriorityLevel'',
                        message = ''PriorityLevel must be a number between 1 and 5''\<rparr>,
                      \<lparr>ValidationError.rowIndex = 2, field = ''PriorityLevel'',
                        message = ''PriorityLevel must be a number between 1 and 5''\<rparr>]\<rparr>"
    by code_simp
  have abc: "Number (CStr ''abc'') = NaN"
    by code_simp
  from priority_level_flagged [OF ev, of 2] priority_level_flagged [OF ev, of 3]
  show ?thesis using ev abc by (simp add: get_prop_def plain_def present_def isNaN_def)
qed

text \<open>The claim C5 as it is written fails on the code: the text \<^verbatim>\<open>2.5\<close> is present, numeric
  and no integer, and the validator reports no error for it.\<close>

theorem priority_level_fraction_counterexample:
  "present (CStr ''2.5'')
   \<and> Number (CStr ''2.5'') = Fin (5 / 2)
   \<and> of_int \<lfloor>5 / 2 :: rat\<rfloor> \<noteq> (5 / 2 :: rat)
   \<and> validateData ''clients''
        (Some [plain [(''ClientID'', SStr ''C1''), (''PriorityLevel'', SStr ''2.5'')]])
      = Inr \<lparr>validated = True, errors = []\<rparr>"
proof -
  have "Number (CStr ''2.5'') = Fin (5 / 2)"
    by code_simp
  moreover have "validateData ''clients''
        (Some [plain [(''ClientID'', SStr ''C1''), (''PriorityLevel'', SStr ''2.5'')]])
      = Inr \<lparr>validated = True, errors = []\<rparr>"
    by code_simp
  moreover have "\<lfloor>5 / 2 :: rat\<rfloor> = 2"
    by (rule floor_unique) simp_all
  ultimately show ?thesis
    by (simp add: present_def)
qed

text \<open>The value is compared as the double that \<open>Number\<close> returns: a text that rounds to 5
  is accepted.\<close>

lemma priority_level_rounded:
  "validateData ''clients''
     (Some [plain [(''ClientID'', SStr ''C1''), (''PriorityLevel'', SStr ''5.0000000000000000001'')]])
   = Inr \<lparr>validated = True, errors = []\<rparr>"
  by code_simp

section \<open>Properties of the instruction parser\<close>

lemma first_down_Some: "first_down f n = Some r \<Longrightarrow> \<exists>m\<le>n. f m = Some r"
proof (induction n)
  case 0
  then show ?case by simp
next
  case (Suc n)
  show ?case
  proof (cases "f (Suc n)")
    case None
    with Suc show ?thesis by (auto intro: le_SucI)
  next
    case (Some a)
    with Suc.prems show ?thesis by auto
  qed
qed

lemma rx_match_captures:
  "rx_match ic r s caps = Some res \<Longrightarrow>
   length res = length caps + length (filter (\<lambda>x. case x of CapPlus _ \<Rightarrow> True | _ \<Rightarrow> False) r)"
proof (induction r arbitrary: s caps)
  case Nil
  then show ?case by (simp split: if_splits)
next
  case (Cons x r)
  show ?case
  proof (cases x)
    case (Lit c)
    with Cons show ?thesis by (auto split: list.splits if_splits)
  next
    case (Star k)
    with Cons.prems obtain m where "rx_match ic r (drop m s) caps = Some res"
      by (auto dest: first_down_Some)
    with Cons.IH Star show ?thesis by simp
  next
    case (Plus k)
    with Cons.prems obtain m where
      "(if m = 0 then None else rx_match ic r (drop m s) caps) = Some res"
      by (auto dest!: first_down_Some)
    then have "rx_match ic r (drop m s) caps = Some res" by (simp split: if_splits)
    with Cons.IH Plus show ?thesis by simp
  next
    case (CapPlus k)
    with Cons.prems obtain m where
      "(if m = 0 then None else rx_match ic r (drop m s) (caps @ [take m s])) = Some res"
      by (auto dest!: first_down_Some)
    then have "rx_match ic r (drop m s) (caps @ [take m s]) = Some res" by (simp split: if_splits)
    from Cons.IH [OF this] CapPlus show ?thesis by simp
  qed
qed

lemma cond_pattern_captures:
  assumes "rx_match True cond_pattern instruction [] = Some caps"
  shows "caps = [caps ! 0, caps ! 1, caps ! 2, caps ! 3]"
proof -
  have "length caps = 4"
    using rx_match_captures [OF assms] by (simp add: cond_pattern_def lits_def)
  then show ?thesis
    by (cases caps; simp; cases "tl caps"; simp; cases "tl (tl caps)"; simp;
        cases "tl (tl (tl caps))"; simp)
qed


lemma parseEdit_cond:
  assumes "rx_match True cond_pattern instruction [] = Some caps"
  shows "parseEditInstruction instruction data =
     List.map_filter
       (\<lambda>(i, row). if toLowerCase (ToString (get_prop row (caps ! 2))) = toLowerCase (caps ! 3)
                    then Some (edit_row (caps ! 0) (caps ! 1) row i) else None)
       (enumerate 0 data)"
proof -
  obtain a b c d where caps: "caps = [a, b, c, d]"
    using cond_pattern_captures [OF assms] by blast
  show ?thesis
    using assms unfolding caps by (simp add: parseEditInstruction_def cong: if_cong)
qed


lemma parseEdit_none:
  assumes "rx_match True cond_pattern instruction [] = None"
    and "rx_match True all_pattern instruction [] = None"
  shows "parseEditInstruction instruction data = []"
  using assms by (simp add: parseEditInstruction_def)

lemma map_filter_empty: "\<forall>x\<in>set xs. f x = None \<Longrightarrow> List.map_filter f xs = []"
  by (induction xs) (simp_all add: List.map_filter_simps)

lemma nonsense_no_match:
  "rx_match True cond_pattern ''nonsense instruction'' [] = None"
  "rx_match True all_pattern ''nonsense instruction'' [] = None"
  by code_simp+

text \<open>
  C6: when the instruction matches neither pattern, or matches the conditional pattern
  while no row has, in the field of the condition, a value equal to the value of the
  condition up to letter case, the parser returns the empty list; the instruction
  \<^verbatim>\<open>nonsense instruction\<close> gives the empty list on every dataset.
\<close>

theorem parse_edit_no_match_is_empty:
  assumes "(rx_match True cond_pattern instruction [] = None
            \<and> rx_match True all_pattern instruction [] = None)
         \<or> (\<exists>caps. rx_match True cond_pattern instruction [] = Some caps
              \<and> (\<forall>row\<in>set data.
                    toLowerCase (ToString (get_prop row (caps ! 2))) \<noteq> toLowerCase (caps ! 3)))"
  shows "parseEditInstruction instruction data = []
         \<and> parseEditInstruction ''nonsense instruction'' rows = []"
proof
  show "parseEditInstruction ''nonsense instruction'' rows = []"
    by (rule parseEdit_none [OF nonsense_no_match])
next
  from assms show "parseEditInstruction instruction data = []"
  proof (elim disjE conjE exE)
    assume "rx_match True cond_pattern instruction [] = None"
      and "rx_match True all_pattern instruction [] = None"
    then show ?thesis by (rule parseEdit_none)
  next
    fix caps
    assume m: "rx_match True cond_pattern instruction [] = Some caps"
      and n: "\<forall>row\<in>set data.
                toLowerCase (ToString (get_prop row (caps ! 2))) \<noteq> toLowerCase (caps ! 3)"
    have "\<forall>x\<in>set (enumerate 0 data).
        (\<lambda>(i, row). if toLowerCase (ToString (get_prop row (caps ! 2))) = toLowerCase (caps ! 3)
                     then Some (edit_row (caps ! 0) (caps ! 1) row i) else None) x = None"
      using n by (auto simp: in_set_enumerate_eq)
    then show ?thesis
      unfolding parseEdit_cond [OF m] by (rule map_filter_empty)
  qed
qed

theorem parse_edit_no_match_is_empty_witness:
  "rx_match True cond_pattern ''set PriorityLevel=5 where GroupTag=Enterprise'' []
     = Some [''PriorityLevel'', ''5'', ''GroupTag'', ''Enterprise'']
   \<and> toLowerCase (ToString (get_prop (plain [(''GroupTag'', SStr ''Startup'')]) ''GroupTag''))
       \<noteq> toLowerCase ''Enterprise''
   \<and> parseEditInstruction ''set PriorityLevel=5 where GroupTag=Enterprise''
        [plain [(''GroupTag'', SStr ''Startup'')]] = []"
proof -
  have m: "rx_match True cond_pattern ''set PriorityLevel=5 where GroupTag=Enterprise'' []
     = Some [''PriorityLevel'', ''5'', ''GroupTag'', ''Enterprise'']"
    by code_simp
  have n: "toLowerCase (ToString (get_prop (plain [(''GroupTag'', SStr ''Startup'')]) ''GroupTag''))
       \<noteq> toLowerCase ''Enterprise''"
    by code_simp
  from parse_edit_no_match_is_empty
    [of "''set PriorityLevel=5 where GroupTag=Enterprise''" "[plain [(''GroupTag'', SStr ''Startup'')]]" "[]"]
    m n
  show ?thesis by simp
qed

text \<open>The condition compares the text of the cell as \<open>String\<close> gives it: a numeric cell is
  compared in exponent form when that is how its text reads.\<close>

lemma numeric_cell_in_exponent_form:
  "parseEditInstruction ''set X=1 where Y=1e-7''
     [plain [(''Y'', SNum (StringToNumber ''0.0000001''))]]
   = [\<lparr>EditChange.rowIndex = 0, field = ''X'', oldValue = CUndefined, newValue = SStr ''1''\<rparr>]"
  by code_simp

subsection \<open>A text in braces parses to an object\<close>










subsection \<open>The new value of a JSON field\<close>










section \<open>Applying changes and fixes\<close>

subsection \<open>Assignments to a row\<close>

lemma own_set_prop_same:
  "k \<noteq> ''__proto__'' \<Longrightarrow> map_of (own (set_prop r k v)) k = Some v"
  by (simp add: set_prop_def update_conv')

lemma own_set_prop_other:
  "k' \<noteq> k \<Longrightarrow> map_of (own (set_prop r k v)) k' = map_of (own r) k'"
  by (simp add: set_prop_def update_conv')

lemma get_prop_own: "map_of (own r) k = Some v \<Longrightarrow> get_prop r k = read v"
  by (simp add: get_prop_def)

text \<open>An assignment to a field other than \<^verbatim>\<open>__proto__\<close> is read back.\<close>

lemma get_set_prop: "k \<noteq> ''__proto__'' \<Longrightarrow> get_prop (set_prop r k v) k = read v"
  by (rule get_prop_own) (rule own_set_prop_same)

text \<open>On a row that has its prototype and does not own \<^verbatim>\<open>__proto__\<close>, an assignment of a
  scalar other than \<open>null\<close> to \<^verbatim>\<open>__proto__\<close> changes nothing.\<close>

lemma set_prop_proto:
  "proto r \<Longrightarrow> map_of (own r) ''__proto__'' = None \<Longrightarrow> v \<noteq> SNull
   \<Longrightarrow> set_prop r ''__proto__'' v = r"
  by (simp add: set_prop_def)

lemma assign_all_Cons: "assign_all r ((k, v) # ws) = assign_all (set_prop r k v) ws"
  by (simp add: assign_all_def)

lemma assign_all_append: "assign_all r (ws @ ws') = assign_all (assign_all r ws) ws'"
  by (simp add: assign_all_def)

lemma own_assign_all_other:
  "\<forall>w\<in>set ws. fst w \<noteq> k \<Longrightarrow> map_of (own (assign_all r ws)) k = map_of (own r) k"
proof (induction ws arbitrary: r)
  case Nil
  then show ?case by (simp add: assign_all_def)
next
  case (Cons w ws)
  obtain k' v where w: "w = (k', v)" by (cases w)
  with Cons.prems have "k \<noteq> k'" by auto
  then have "map_of (own (set_prop r k' v)) k = map_of (own r) k"
    by (rule own_set_prop_other)
  moreover have "map_of (own (assign_all (set_prop r k' v) ws)) k = map_of (own (set_prop r k' v)) k"
    using Cons.prems by (intro Cons.IH) simp
  ultimately show ?case
    unfolding w assign_all_Cons by simp
qed

subsection \<open>The rows after a batch\<close>

lemma length_apply_change: "length (apply_change data c) = length data"
  by (simp add: apply_change_def)

lemma length_rows_after: "length (rows_after data cs) = length data"
  by (simp add: rows_after_def)

lemma nth_rows_after:
  "i < length data \<Longrightarrow> rows_after data cs ! i = assign_all (data ! i) (writes_to i cs)"
  by (simp add: rows_after_def nth_enumerate_eq)

lemma nth_apply_change:
  "i < length data \<Longrightarrow>
   apply_change data c ! i =
     (if EditChange.rowIndex c = int i
      then set_prop (data ! i) (EditChange.field c) (newValue c) else data ! i)"
  by (auto simp: apply_change_def nth_list_update)

lemma writes_to_Cons:
  "writes_to i (c # cs) =
     (if EditChange.rowIndex c = int i then (EditChange.field c, newValue c) # writes_to i cs
      else writes_to i cs)"
  by (simp add: writes_to_def)

lemma writes_to_append: "writes_to i (cs @ ds) = writes_to i cs @ writes_to i ds"
  by (simp add: writes_to_def)

lemma rows_after_Cons: "rows_after data (c # cs) = rows_after (apply_change data c) cs"
proof (rule nth_equalityI)
  show "length (rows_after data (c # cs)) = length (rows_after (apply_change data c) cs)"
    by (simp add: length_rows_after length_apply_change)
next
  fix i
  assume "i < length (rows_after data (c # cs))"
  then have i: "i < length data" by (simp add: length_rows_after)
  then have "rows_after (apply_change data c) cs ! i
      = assign_all (apply_change data c ! i) (writes_to i cs)"
    by (simp add: nth_rows_after length_apply_change)
  also have "\<dots> = assign_all (data ! i) (writes_to i (c # cs))"
    using i by (simp add: nth_apply_change writes_to_Cons assign_all_Cons)
  finally show "rows_after data (c # cs) ! i = rows_after (apply_change data c) cs ! i"
    using i by (simp add: nth_rows_after)
qed

lemma rows_after_Nil: "rows_after data [] = data"
  by (rule nth_equalityI) (simp_all add: length_rows_after nth_rows_after writes_to_def assign_all_def)

text \<open>The loop over a batch gives every row the assignments that the batch holds for it.\<close>

lemma foldl_apply_change_rows: "foldl apply_change data cs = rows_after data cs"
  by (induction cs arbitrary: data) (simp_all add: rows_after_Nil rows_after_Cons)



text \<open>
  C8, as the code has it: a batch of changes is written in the order of the list, so the
  row holds the value of the last entry for a cell, in every field but \<^verbatim>\<open>__proto__\<close>. When
  \<open>c\<close> is an entry for a row of the dataset, its field is not \<^verbatim>\<open>__proto__\<close>, and no later
  entry of the batch is for the same row and field, the new dataset has as many rows as the
  old one and its row \<open>rowIndex c\<close> holds \<open>newValue c\<close> in \<open>field c\<close>, whatever the earlier
  entries wrote there.
\<close>

theorem apply_last_write_wins:
  assumes "0 \<le> EditChange.rowIndex c" and "EditChange.rowIndex c < int (length data)"
    and "\<forall>d\<in>set later. \<not> (EditChange.rowIndex d = EditChange.rowIndex c
           \<and> EditChange.field d = EditChange.field c)"
    and "EditChange.field c \<noteq> ''__proto__''"
  shows "\<exists>data'. handleApplyChanges (earlier @ c # later) data = Some data'
           \<and> length data' = length data
           \<and> get_prop (data' ! nat (EditChange.rowIndex c)) (EditChange.field c)
               = read (newValue c)"
proof -
  let ?i = "nat (EditChange.rowIndex c)"
  let ?f = "EditChange.field c"
  let ?r1 = "assign_all (data ! ?i) (writes_to ?i earlier)"
  let ?r2 = "set_prop ?r1 ?f (newValue c)"
  have i: "?i < length data" "EditChange.rowIndex c = int ?i"
    using assms(1,2) by simp_all
  have w: "writes_to ?i (earlier @ c # later)
      = writes_to ?i earlier @ (?f, newValue c) # writes_to ?i later"
    using i(2) by (simp add: writes_to_append writes_to_Cons)
  have "rows_after data (earlier @ c # later) ! ?i = assign_all ?r2 (writes_to ?i later)"
    unfolding nth_rows_after [OF i(1)] w assign_all_append assign_all_Cons ..
  moreover have "\<forall>w\<in>set (writes_to ?i later). fst w \<noteq> ?f"
    using assms(3) i(2) by (auto simp: writes_to_def)
  then have "map_of (own (assign_all ?r2 (writes_to ?i later))) ?f = map_of (own ?r2) ?f"
    by (rule own_assign_all_other)
  moreover have "map_of (own ?r2) ?f = Some (newValue c)"
    using assms(4) by (rule own_set_prop_same)
  ultimately have "get_prop (rows_after data (earlier @ c # later) ! ?i) ?f = read (newValue c)"
    by (simp add: get_prop_own)
  then show ?thesis
    by (simp add: handleApplyChanges_def foldl_apply_change_rows length_rows_after
          del: foldl_append foldl_Cons)
qed

theorem apply_last_write_wins_witness:
  "handleApplyChanges
     [\<lparr>EditChange.rowIndex = 0, field = ''PriorityLevel'', oldValue = CStr ''1'', newValue = SStr ''4''\<rparr>,
      \<lparr>EditChange.rowIndex = 0, field = ''PriorityLevel'', oldValue = CStr ''1'', newValue = SStr ''5''\<rparr>]
     [plain [(''ClientID'', SStr ''C1''), (''PriorityLevel'', SStr ''1'')]]
   = Some [plain [(''ClientID'', SStr ''C1''), (''PriorityLevel'', SStr ''5'')]]
   \<and> get_prop (plain [(''ClientID'', SStr ''C1''), (''PriorityLevel'', SStr ''5'')]) ''PriorityLevel''
       = CStr ''5''"
  using apply_last_write_wins
    [of "\<lparr>EditChange.rowIndex = 0, field = ''PriorityLevel'', oldValue = CStr ''1'', newValue = SStr ''5''\<rparr>"
        "[plain [(''ClientID'', SStr ''C1''), (''PriorityLevel'', SStr ''1'')]]" "[]"
        "[\<lparr>EditChange.rowIndex = 0, field = ''PriorityLevel'', oldValue = CStr ''1'', newValue = SStr ''4''\<rparr>]"]
  by (simp add: handleApplyChanges_def apply_change_def set_prop_def get_prop_def plain_def)

text \<open>The claim C8 as it is written fails on the code for the field \<^verbatim>\<open>__proto__\<close>: the
  assignments go to the setter that the row inherits, which ignores a text, so after two
  entries for that field the row is what it was and reads its prototype there, not the
  new value of the last entry.\<close>

theorem proto_field_not_written_counterexample:
  "handleApplyChanges
     [\<lparr>EditChange.rowIndex = 0, field = ''__proto__'', oldValue = CInherited ''__proto__'',
        newValue = SStr ''a''\<rparr>,
      \<lparr>EditChange.rowIndex = 0, field = ''__proto__'', oldValue = CInherited ''__proto__'',
        newValue = SStr ''b''\<rparr>]
     [plain [(''ClientID'', SStr ''C1'')]]
   = Some [plain [(''ClientID'', SStr ''C1'')]]
   \<and> get_prop (plain [(''ClientID'', SStr ''C1'')]) ''__proto__'' = CInherited ''__proto__''
   \<and> read (SStr ''b'') \<noteq> CInherited ''__proto__''"
  by code_simp



section \<open>Properties of the gateway\<close>

text \<open>
  C1: a filter predicate that names a column in lower case is to be rewritten to the
  column's own spelling. The pattern the code builds asks for a backspace character after
  the name (\<^verbatim>\<open>\b\<close> inside a template literal), so for the predicate
  \<^verbatim>\<open>row => row.prioritylevel > 3\<close> and the column \<^verbatim>\<open>PriorityLevel\<close> nothing matches and the
  text comes back unchanged, still naming \<^verbatim>\<open>row.prioritylevel\<close>.
\<close>

theorem lower_cased_column_not_rewritten:
  "mapFilterFunctionToOriginalColumns ''row => row.prioritylevel > 3'' [''PriorityLevel'']
   = ''row => row.prioritylevel > 3''"
  by code_simp

text \<open>A text without a backspace character is never changed, whatever the columns are
  (among the names that the model covers); the name is rewritten where a backspace follows
  it.\<close>

lemma match_here_backspace: "match_here lc pre rest \<Longrightarrow> CHR 0x08 \<in> set rest"
proof -
  assume "match_here lc pre rest"
  then obtain t where "drop (length lc) rest = CHR 0x08 # t"
    by (auto simp: match_here_def split: list.splits)
  then have "CHR 0x08 \<in> set (drop (length lc) rest)" by simp
  then show ?thesis by (rule in_set_dropD)
qed

lemma replace_scan_no_backspace:
  "CHR 0x08 \<notin> set s \<Longrightarrow> replace_scan lc col pre 0 s = s"
proof (induction s arbitrary: pre)
  case Nil
  then show ?case by simp
next
  case (Cons c cs)
  have "\<not> match_here lc pre (c # cs)"
    using Cons.prems match_here_backspace by blast
  then show ?case using Cons by simp
qed

lemma map_filter_no_backspace:
  assumes "list_all literal_name columns" and "CHR 0x08 \<notin> set filterFunction"
  shows "mapFilterFunctionToOriginalColumns filterFunction columns = filterFunction"
  using assms(2) unfolding mapFilterFunctionToOriginalColumns_def
  by (induction columns) (simp_all add: replace_scan_no_backspace)

lemma literal_name_example: "literal_name ''PriorityLevel'' \<and> \<not> literal_name ''C++''"
  by code_simp

lemma map_filter_before_backspace:
  "mapFilterFunctionToOriginalColumns (''row => row.prioritylevel'' @ [CHR 0x08] @ '' > 3'')
     [''PriorityLevel'']
   = ''row => row.PriorityLevel'' @ [CHR 0x08] @ '' > 3''"
  by code_simp

text \<open>The same through \<open>generateFilter\<close>: the reply carries the predicate in lower case, the
  dataset has the column \<^verbatim>\<open>PriorityLevel\<close>, and the result still names
  \<^verbatim>\<open>row.prioritylevel\<close>.\<close>

lemma generateFilter_keeps_lower_case:
  "generateFilter
     (Inr \<lparr>ok = True, status = 200,
        body = JSON_stringify (JObj [(''candidates'', JArr [JObj [(''content'',
                 JObj [(''parts'', JArr [JObj [(''text'',
                   JStr ''{\"filterFunction\":\"row => row.prioritylevel > 3\"}'')]])])]])])\<rparr>)
     ''priority above 3'' [plain [(''PriorityLevel'', SNum (Fin 4))]] ''clients''
   = Inr (JObj [(''filterFunction'', JStr ''row => row.prioritylevel > 3'')])"
  by code_simp


lemma reply_path_null: "reply_path JNull = None"
  by (simp add: reply_path_def opt_member_def)







end
